theory Spec2Isabelle
  imports Main
begin

section \<open>The RAIL installer (install\_rail.py): a shallow embedding\<close>

text \<open>
  The installer is a Python script that drives external programs. Its pure parts are
  modelled as HOL functions; what it reads from the machine (the command search path, the
  file system, the outcome of a sub-shell, the terminal, the lines typed by the operator)
  is collected in a record \<open>world\<close>, and what it changes (the commands it ran, the
  lines it consumed) in a record \<open>io\<close> that is passed along.

  Strings are lists of \<open>char\<close>; a \<open>char\<close> stands for a code point below 256.
\<close>

subsection \<open>Python string operations used by the script\<close>

abbreviation NL :: char where
  "NL \<equiv> CHR 0x0A"

text \<open>The code points below 256 for which \<open>str.isspace\<close> holds.\<close>

definition is_space :: "char \<Rightarrow> bool" where
  "is_space c = (of_char c \<in> {9, 10, 11, 12, 13, 28, 29, 30, 31, 32, 133, 160 :: nat})"

text \<open>\<open>s.strip()\<close>\<close>

definition strip :: "string \<Rightarrow> string" where
  "strip s = rev (dropWhile is_space (rev (dropWhile is_space s)))"

text \<open>\<open>s.startswith(p)\<close> and \<open>s.endswith(p)\<close>\<close>

fun startswith :: "string \<Rightarrow> string \<Rightarrow> bool" where
  "startswith s [] = True"
| "startswith [] (p # ps) = False"
| "startswith (c # cs) (p # ps) = (c = p \<and> startswith cs ps)"

definition endswith :: "string \<Rightarrow> string \<Rightarrow> bool" where
  "endswith s p = startswith (rev s) (rev p)"

text \<open>\<open>p in s\<close> for strings\<close>

fun contains :: "string \<Rightarrow> string \<Rightarrow> bool" where
  "contains [] p = (p = [])"
| "contains (c # cs) p = (startswith (c # cs) p \<or> contains cs p)"

text \<open>\<open>sep.join(xs)\<close>\<close>

fun join :: "string \<Rightarrow> string list \<Rightarrow> string" where
  "join sep [] = []"
| "join sep [x] = x"
| "join sep (x # y # ys) = x @ sep @ join sep (y # ys)"

text \<open>
  \<open>s.split(sep)\<close> for a separator of one character: \<open>cur\<close> is the field read so far,
  reversed. An empty string splits into one empty field.
\<close>

fun split_acc :: "char \<Rightarrow> string \<Rightarrow> string \<Rightarrow> string list" where
  "split_acc sep cur [] = [rev cur]"
| "split_acc sep cur (c # cs) =
     (if c = sep then rev cur # split_acc sep [] cs else split_acc sep (c # cur) cs)"

definition split_str :: "string \<Rightarrow> char \<Rightarrow> string list" where
  "split_str s sep = split_acc sep [] s"

subsection \<open>Errors and outcomes\<close>

text \<open>
  The script's own error class prints its message and ends the process in its constructor
  (\<open>sys.exit(return_code)\<close>), so raising it is a \<open>SystemExit\<close> carrying the printed
  message and the exit code. The other constructors are the Python exceptions that the
  modelled code can raise.
\<close>

datatype error =
    SystemExit string int
  | ValueError
  | IndexError
  | KeyError
  | TypeError
  | AttributeError
  | UnboundLocalError
  | EOFError
  | JSONDecodeError

text \<open>
  \<open>RAILInstallationError(message, return_code)\<close>: the message gets a leading and a
  trailing newline when it has none.
\<close>

definition RAILInstallationError :: "string \<Rightarrow> int \<Rightarrow> error" where
  "RAILInstallationError message return_code =
     (let message = (if \<not> startswith message [NL] then [NL] @ message else message);
          message = (if \<not> endswith message [NL] then message @ [NL] else message)
      in SystemExit message return_code)"

text \<open>What the script does to the machine: the commands and file operations, oldest first,
  and the number of lines read from the terminal.\<close>

datatype event = Cmd string | Mkdir string | Unlink string

record io =
  events :: "event list"
  consumed :: nat

text \<open>A call returns a value, raises, or does not come back.\<close>

datatype 'a outcome = Return 'a io | Raise error io | Diverge

fun bind :: "'a outcome \<Rightarrow> ('a \<Rightarrow> io \<Rightarrow> 'b outcome) \<Rightarrow> 'b outcome" where
  "bind (Return x s) f = f x s"
| "bind (Raise e s) f = Raise e s"
| "bind Diverge f = Diverge"

subsection \<open>The machine\<close>

text \<open>\<open>subprocess.CompletedProcess\<close>: a stream that was not captured is \<open>None\<close>.\<close>

record completed_process =
  returncode :: int
  stdout :: "string option"
  stderr :: "string option"

text \<open>
  \<open>which exe\<close> is \<open>shutil.which(exe) is not None\<close>; \<open>path_exists p\<close> is
  \<open>Path(p).exists()\<close>; \<open>subprocess_run past cmd capture_output\<close> is the outcome of
  \<open>subprocess.run(cmd, shell=True, ...)\<close> after the events \<open>past\<close>; \<open>isatty\<close> is
  \<open>sys.stdout.isatty()\<close>; \<open>stdin n\<close> is the \<open>n\<close>-th line that \<open>input()\<close> returns, \<open>None\<close>
  at the end of the input; \<open>home\<close> is what \<open>~\<close> expands to; \<open>environ\<close> is
  \<open>os.environ\<close>. The two \<open>json\<close> fields stand for \<open>json.loads\<close> followed by the
  access the script makes: the list under the key \<open>envs\<close>, and the first value of the
  object.
\<close>

record world =
  which :: "string \<Rightarrow> bool"
  path_exists :: "string \<Rightarrow> bool"
  subprocess_run :: "event list \<Rightarrow> string \<Rightarrow> bool \<Rightarrow> completed_process"
  isatty :: bool
  stdin :: "nat \<Rightarrow> string option"
  home :: string
  environ :: "string \<Rightarrow> string option"
  json_envs :: "string \<Rightarrow> error + string list"
  json_first_value :: "string \<Rightarrow> error + string"

subsection \<open>Messages\<close>

definition ERROR_SPECS_MESSAGE :: string where
  "ERROR_SPECS_MESSAGE =
     [NL] @ ''If this error occurred while creating or installing into a Python virtual environment,''
   @ [NL] @ ''and the error message is vague, this may be related to hardware specifications. Please''
   @ [NL] @ ''visit the RAIL documentation on minimum requirements.''
   @ [NL]
   @ [NL] @ ''Working with the RAIL virtual environment requires at least 4GiB of RAM, and 5GiB of free storage.''
   @ [NL]"

subsection \<open>The command executor\<close>

text \<open>The message that \<open>run_cmd\<close> builds when the return code is not zero.\<close>

definition run_cmd_error_message :: "completed_process \<Rightarrow> string" where
  "run_cmd_error_message output =
     (let error_message = ''CLI command failed'';
          error_message =
            (if stdout output \<noteq> None \<or> stderr output \<noteq> None then
               (let out = (case stdout output of Some s \<Rightarrow> strip s
                           | None \<Rightarrow> ''No output from command'');
                    err = (case stderr output of Some s \<Rightarrow> strip s
                           | None \<Rightarrow> ''No error from command'')
                in error_message @ '': '' @ out @ [NL] @ err)
             else error_message);
          error_message =
            (if returncode output \<noteq> 127 then error_message @ [NL] @ ERROR_SPECS_MESSAGE
             else error_message)
      in error_message)"

text \<open>
  \<open>run_cmd(cmd, as_comment, capture_output=...)\<close>. The only keyword argument the script
  ever passes on to \<open>subprocess.run\<close> is \<open>capture_output\<close>.
\<close>

definition run_cmd :: "world \<Rightarrow> string \<Rightarrow> bool \<Rightarrow> bool \<Rightarrow> io \<Rightarrow> completed_process outcome" where
  "run_cmd w cmd as_comment capture_output s =
     (let cmd = (if as_comment then ''# '' @ cmd else cmd);
          output = subprocess_run w (events s) cmd capture_output;
          s = s\<lparr>events := events s @ [Cmd cmd]\<rparr>
      in if returncode output \<noteq> 0 then
           Raise (RAILInstallationError (run_cmd_error_message output) (returncode output)) s
         else Return output s)"

subsection \<open>Terminal colours and paths\<close>

abbreviation ESC :: char where
  "ESC \<equiv> CHR 0x1B"

text \<open>\<open>STYLES[style_name]\<close>: every style is one foreground colour, not inverted.\<close>

definition STYLES :: "string \<Rightarrow> string" where
  "STYLES style_name =
     (if style_name = ''error'' then [ESC] @ ''[31m''
      else if style_name = ''cmd'' then [ESC] @ ''[36m''
      else if style_name = ''path'' then [ESC] @ ''[36m''
      else if style_name = ''question'' then [ESC] @ ''[35m''
      else [ESC] @ ''[34m'')"

definition colorize :: "world \<Rightarrow> string \<Rightarrow> string \<Rightarrow> string" where
  "colorize w style_name text =
     (if isatty w then STYLES style_name @ text @ [ESC] @ ''[0m'' else text)"

definition RAIL_COLORIZED :: "world \<Rightarrow> string" where
  "RAIL_COLORIZED w = colorize w ''highlight'' ''RAIL''"

text \<open>
  Paths, as \<open>pathlib\<close> reads them on a POSIX machine: the root is \<open>/\<close>, or \<open>//\<close> when
  the string begins with exactly two slashes; empty components and \<open>.\<close> do not count;
  the path is written as the root and the components with single slashes between them,
  and as \<open>.\<close> when there is nothing to write.
\<close>

definition path_parts :: "string \<Rightarrow> string list" where
  "path_parts p = filter (\<lambda>c. c \<noteq> [] \<and> c \<noteq> ''.'') (split_str p (CHR ''/''))"

definition path_root :: "string \<Rightarrow> string" where
  "path_root p =
     (if startswith p ''//'' \<and> \<not> startswith p ''///'' then ''//''
      else if startswith p ''/'' then ''/''
      else [])"

definition path_str :: "string \<Rightarrow> string list \<Rightarrow> string" where
  "path_str root parts = (if root = [] \<and> parts = [] then ''.'' else root @ join ''/'' parts)"

text \<open>\<open>str(Path(p) / c)\<close>: an absolute \<open>c\<close> replaces the path.\<close>

definition path_join :: "string \<Rightarrow> string \<Rightarrow> string" where
  "path_join p c =
     (if startswith c ''/'' then path_str (path_root c) (path_parts c)
      else path_str (path_root p) (path_parts p @ path_parts c))"

text \<open>
  \<open>str(Path(p).expanduser())\<close>: a relative path whose first component is \<open>~\<close> is
  continued from the home directory. The registry has no path of the form \<open>~user\<close>,
  which would ask for the home directory of another user.
\<close>

definition expanduser :: "world \<Rightarrow> string \<Rightarrow> string" where
  "expanduser w p =
     (case path_parts p of
        [] \<Rightarrow> path_str (path_root p) (path_parts p)
      | first # rest \<Rightarrow>
          if path_root p = [] \<and> first = ''~''
          then path_str (path_root (home w)) (path_parts (home w) @ rest)
          else path_str (path_root p) (path_parts p))"

text \<open>
  \<open>Path(p).stem\<close>: the last component of the path, without its last suffix; a dot in
  first or in last place starts no suffix.
\<close>

definition path_name :: "string \<Rightarrow> string" where
  "path_name p = (case rev (path_parts p) of [] \<Rightarrow> [] | n # _ \<Rightarrow> n)"

definition stem :: "string \<Rightarrow> string" where
  "stem p =
     (let n = path_name p;
          suffix = rev (takeWhile (\<lambda>c. c \<noteq> CHR ''.'') (rev n));
          i = length n - length suffix - 1
      in if CHR ''.'' \<in> set n \<and> 0 < i \<and> i < length n - 1 then take i n else n)"

subsection \<open>The registry of environment managers\<close>

text \<open>A link template: \<open>{kernel}\<close> and \<open>{architecture}\<close> are the two fields that
  \<open>str.format\<close> fills in.\<close>

datatype piece = Lit string | Kernel_field | Architecture_field

fun format_link :: "piece list \<Rightarrow> string \<Rightarrow> string \<Rightarrow> string" where
  "format_link [] k a = []"
| "format_link (Lit t # ps) k a = t @ format_link ps k a"
| "format_link (Kernel_field # ps) k a = k @ format_link ps k a"
| "format_link (Architecture_field # ps) k a = a @ format_link ps k a"

record environment_manager =
  name :: string
  installable :: bool
  executable :: string
  directory :: "string option"
  installer_link :: "piece list option"
  installer_options :: "string list option"
  activation_script :: "string option"

text \<open>The dataclass constructor with its \<open>__post_init__\<close>.\<close>

definition EnvironmentManager ::
  "world \<Rightarrow> string \<Rightarrow> bool \<Rightarrow> string \<Rightarrow> string option \<Rightarrow> piece list option \<Rightarrow>
   string list option \<Rightarrow> environment_manager" where
  "EnvironmentManager w nm inst exe dir link opts =
     \<lparr>name = nm, installable = inst,
      executable = (if exe = [] then nm else exe),
      directory = map_option (expanduser w) dir,
      installer_link = link, installer_options = opts,
      activation_script =
        map_option (\<lambda>d. path_join (path_join (expanduser w d) ''bin'') ''activate'') dir\<rparr>"

definition ENV_MANAGER_INFO :: "world \<Rightarrow> environment_manager list" where
  "ENV_MANAGER_INFO w =
     [EnvironmentManager w ''micromamba'' False [] None None None,
      EnvironmentManager w ''mamba'' True [] (Some ''~/miniforge3'')
        (Some [Lit ''https://github.com/conda-forge/miniforge/releases/latest/download/Miniforge3-'',
               Kernel_field, Lit ''-'', Architecture_field, Lit ''.sh''])
        (Some [''-b'', ''-u'', ''-p'']),
      EnvironmentManager w ''miniconda'' True ''conda'' (Some ''~/miniconda3'')
        (Some [Lit ''https://repo.anaconda.com/miniconda/Miniconda3-latest-'',
               Kernel_field, Lit ''-'', Architecture_field, Lit ''.sh''])
        (Some [''-b'', ''-u'', ''-c'', ''-p'']),
      EnvironmentManager w ''anaconda'' False ''conda'' (Some ''~/anaconda3'') None None]"

subsection \<open>The installer\<close>

record installer =
  fetcher :: string
  dry_run :: bool
  verbose :: bool
  env_manager :: "environment_manager option"
  env_manager_preinitialized :: bool
  env_name :: "string option"
  kernel :: string
  architecture :: string

text \<open>The dataclass constructor: no manager yet, not preinitialised, no name yet.\<close>

definition Installer :: "string \<Rightarrow> bool \<Rightarrow> bool \<Rightarrow> string \<Rightarrow> string \<Rightarrow> installer" where
  "Installer f d v k a =
     \<lparr>fetcher = f, dry_run = d, verbose = v, env_manager = None,
      env_manager_preinitialized = False, env_name = None, kernel = k, architecture = a\<rparr>"

text \<open>\<open>Installer.run_env_manager_cmd\<close>\<close>

definition run_env_manager_cmd ::
  "world \<Rightarrow> installer \<Rightarrow> string \<Rightarrow> bool \<Rightarrow> bool \<Rightarrow> io \<Rightarrow> completed_process outcome" where
  "run_env_manager_cmd w self cmd as_comment capture_output s =
     (case env_manager self of
        None \<Rightarrow> Raise AttributeError s
      | Some m \<Rightarrow>
          (case activation_script m of
             None \<Rightarrow>
               if which w (executable m) then run_cmd w cmd as_comment capture_output s
               else Raise (RAILInstallationError
                 ''Something went wrong finding/activating the Python virtual environment manager.'' 1) s
           | Some script \<Rightarrow>
               run_cmd w (''. '' @ script @ '' && '' @ cmd) as_comment capture_output s))"

subsection \<open>Interactive input\<close>

definition ERROR_NONINTERACTIVE_INPUT :: "string \<Rightarrow> string" where
  "ERROR_NONINTERACTIVE_INPUT prompt =
     [NL] @ ''User input needed, but output device is not a tty. To run the RAIL installation script''
   @ [NL] @ ''in an unattended mode, ensure all choices are given as command-line options.''
   @ [NL]
   @ [NL] @ ''Input needed: '' @ prompt
   @ [NL]"

text \<open>The acceptance test of one line, as the loop body computes it: \<open>ask\<close> is False.\<close>

definition default_validation :: "string list \<Rightarrow> bool \<Rightarrow> string \<Rightarrow> bool" where
  "default_validation options allow_any result =
     ((allow_any \<and> result \<noteq> []) \<or> (\<not> allow_any \<and> result \<in> set options))"

definition extra_validation :: "(string \<Rightarrow> bool) option \<Rightarrow> string \<Rightarrow> bool" where
  "extra_validation validator result =
     (case validator of None \<Rightarrow> True | Some v \<Rightarrow> v result)"

text \<open>
  The \<open>while ask\<close> loop. Each round reads one line; \<open>input()\<close> raises \<open>EOFError\<close> at
  the end of the input. The loop has no bound on its rounds: \<open>None\<close> is the run that
  never leaves it.
\<close>

partial_function (option) ask_loop ::
  "world \<Rightarrow> string list \<Rightarrow> bool \<Rightarrow> (string \<Rightarrow> bool) option \<Rightarrow> io \<Rightarrow> string outcome option" where
  "ask_loop w options allow_any validator s =
     (case stdin w (consumed s) of
        None \<Rightarrow> Some (Raise EOFError s)
      | Some result \<Rightarrow>
          if (\<not> default_validation options allow_any result)
             \<or> (\<not> extra_validation validator result)
          then ask_loop w options allow_any validator (s\<lparr>consumed := consumed s + 1\<rparr>)
          else Some (Return result (s\<lparr>consumed := consumed s + 1\<rparr>)))"

definition request_input ::
  "world \<Rightarrow> string \<Rightarrow> string list \<Rightarrow> bool \<Rightarrow> (string \<Rightarrow> bool) option \<Rightarrow> io \<Rightarrow> string outcome" where
  "request_input w prompt options allow_any validator s =
     (if \<not> isatty w then Raise (RAILInstallationError (ERROR_NONINTERACTIVE_INPUT prompt) 1) s
      else case ask_loop w options allow_any validator s of
             None \<Rightarrow> Diverge
           | Some r \<Rightarrow> r)"

text \<open>\<open>check_env_name\<close>: True when the name is free.\<close>

definition check_env_name :: "string \<Rightarrow> string list \<Rightarrow> bool" where
  "check_env_name nm existing_names = (if nm \<in> set existing_names then False else True)"

subsection \<open>Version strings\<close>

definition is_digit :: "char \<Rightarrow> bool" where
  "is_digit c = (48 \<le> (of_char c :: nat) \<and> (of_char c :: nat) \<le> 57)"

definition digit_value :: "char \<Rightarrow> int" where
  "digit_value c = int (of_char c) - 48"

text \<open>
  The digits of a decimal literal, left to right: \<open>prev\<close> says that the character
  before was a digit, \<open>acc\<close> is the value read so far. One underscore may stand between
  two digits; anything else is no number.
\<close>

fun digits_value :: "bool \<Rightarrow> int \<Rightarrow> string \<Rightarrow> int option" where
  "digits_value prev acc [] = (if prev then Some acc else None)"
| "digits_value prev acc (c # cs) =
     (if is_digit c then digits_value True (acc * 10 + digit_value c) cs
      else if c = CHR ''_'' \<and> prev then
        (case cs of [] \<Rightarrow> None
         | d # ds \<Rightarrow> if is_digit d then digits_value False acc cs else None)
      else None)"

text \<open>
  \<open>int(s)\<close> on a string: white space around the number is dropped, one sign may lead,
  and \<open>None\<close> is the \<open>ValueError\<close>. What \<open>int\<close> drops is the ASCII white space
  (tab to carriage return, and the blank) and, from 128 on, the Unicode white space; the
  separators \<open>0x1C\<close> to \<open>0x1F\<close>, which \<open>str.strip\<close> drops, are no part of a number.
  Python refuses literals of more than 4300 digits (the default of
  \<open>sys.set_int_max_str_digits\<close>).
\<close>

definition int_space :: "char \<Rightarrow> bool" where
  "int_space c = (of_char c \<in> {9, 10, 11, 12, 13, 32, 133, 160 :: nat})"

definition py_int :: "string \<Rightarrow> int option" where
  "py_int s =
     (let t = rev (dropWhile int_space (rev (dropWhile int_space s)));
          neg = startswith t ''-'';
          body = (if startswith t ''-'' \<or> startswith t ''+'' then tl t else t)
      in if length (filter is_digit body) > 4300 then None
         else map_option (\<lambda>v. if neg then - v else v) (digits_value False 0 body))"

fun ints_of :: "string list \<Rightarrow> int list option" where
  "ints_of [] = Some []"
| "ints_of (f # fs) =
     (case py_int f of None \<Rightarrow> None
      | Some i \<Rightarrow> (case ints_of fs of None \<Rightarrow> None | Some is \<Rightarrow> Some (i # is)))"

text \<open>\<open>version_string_to_tuple = lambda vstring: tuple(int(i) for i in vstring.split("."))\<close>\<close>

definition version_string_to_tuple :: "string \<Rightarrow> int list option" where
  "version_string_to_tuple vstring = ints_of (split_str vstring (CHR ''.''))"

text \<open>
  Python's \<open><\<close> on tuples of integers: the first place where the two differ decides;
  when there is none, the shorter one is the smaller.
\<close>

fun tuple_lt :: "int list \<Rightarrow> int list \<Rightarrow> bool" where
  "tuple_lt [] [] = False"
| "tuple_lt [] (y # ys) = True"
| "tuple_lt (x # xs) [] = False"
| "tuple_lt (x # xs) (y # ys) = (if x = y then tuple_lt xs ys else x < y)"

text \<open>\<open>lambda output: output[output.rindex(" ") + 1 :]\<close>; \<open>rindex\<close> raises when there
  is no space.\<close>

definition after_last_space :: "string \<Rightarrow> error + string" where
  "after_last_space output =
     (if CHR '' '' \<in> set output then Inr (rev (takeWhile (\<lambda>c. c \<noteq> CHR '' '') (rev output)))
      else Inl ValueError)"

text \<open>
  The \<open>match\<close> of \<open>check_env_manager_version\<close>: the version command, the rule that
  takes the version out of its output, and the required version. No case matches any
  other executable, and the three names stay unbound.
\<close>

definition version_rule :: "string \<Rightarrow> (string \<times> (string \<Rightarrow> error + string) \<times> string) option" where
  "version_rule exe =
     (if exe = ''conda'' then Some (''conda --version'', after_last_space, ''23.5.0'')
      else if exe = ''mamba'' then Some (''conda --version'', after_last_space, ''23.5.0'')
      else if exe = ''micromamba'' then Some (exe @ '' --version'', Inr, ''1.5.8'')
      else None)"

definition ERROR_ENV_MANAGER_OUT_OF_DATE :: "string \<Rightarrow> string \<Rightarrow> string \<Rightarrow> string" where
  "ERROR_ENV_MANAGER_OUT_OF_DATE env_mgr present required =
     [NL] @ ''The installed version of `'' @ env_mgr @ ''` ('' @ present
          @ '') is out of date, at least '' @ required @ '' is''
   @ [NL] @ ''required. Please manually upgrade or remove it.''
   @ [NL]"

text \<open>The comparison at the end of \<open>check_env_manager_version\<close>.\<close>

definition compare_versions :: "string \<Rightarrow> string \<Rightarrow> string \<Rightarrow> io \<Rightarrow> unit outcome" where
  "compare_versions exe present_version_string required_version_string s =
     (case version_string_to_tuple present_version_string of
        None \<Rightarrow> Raise ValueError s
      | Some present \<Rightarrow>
          (case version_string_to_tuple required_version_string of
             None \<Rightarrow> Raise ValueError s
           | Some required \<Rightarrow>
               if tuple_lt present required then
                 Raise (RAILInstallationError
                   (ERROR_ENV_MANAGER_OUT_OF_DATE exe present_version_string
                      required_version_string) 1) s
               else Return () s))"

text \<open>\<open>Installer.check_env_manager_version\<close>\<close>

definition check_env_manager_version :: "world \<Rightarrow> installer \<Rightarrow> io \<Rightarrow> unit outcome" where
  "check_env_manager_version w self s =
     (case env_manager self of
        None \<Rightarrow> Raise AttributeError s
      | Some m \<Rightarrow>
          (let fake_version = (dry_run self \<and> \<not> env_manager_preinitialized self)
           in case version_rule (executable m) of
                None \<Rightarrow> Raise UnboundLocalError s
              | Some (version_cmd, output_to_version, required_version_string) \<Rightarrow>
                  bind (run_env_manager_cmd w self version_cmd fake_version True s)
                    (\<lambda>version_result s.
                       if fake_version then Return () s
                       else case stdout version_result of
                              None \<Rightarrow> Raise AttributeError s
                            | Some out \<Rightarrow>
                                (case output_to_version (strip out) of
                                   Inl e \<Rightarrow> Raise e s
                                 | Inr present_version_string \<Rightarrow>
                                     compare_versions (executable m) present_version_string
                                       required_version_string s))))"

subsection \<open>Installing and initialising a manager\<close>

text \<open>\<open>Installer.uname_convert\<close>: no case of the \<open>match\<close> binds the two results for
  any other use case.\<close>

definition uname_convert :: "installer \<Rightarrow> string \<Rightarrow> error + (string \<times> string)" where
  "uname_convert self use_case =
     (if use_case = ''conda'' then
        Inr (if kernel self = ''Darwin'' then ''MacOSX'' else ''Linux'', architecture self)
      else if use_case = ''mamba'' then Inr (kernel self, architecture self)
      else if use_case = ''micromamba'' \<or> use_case = ''conda-lock'' then
        Inr (if kernel self = ''Darwin'' then ''osx'' else ''linux'',
             if architecture self = ''x86_64'' then ''64'' else ''arm64'')
      else Inl UnboundLocalError)"

text \<open>\<open>Installer.run_fetch_cmd\<close>\<close>

definition run_fetch_cmd ::
  "world \<Rightarrow> installer \<Rightarrow> string \<Rightarrow> string \<Rightarrow> bool \<Rightarrow> io \<Rightarrow> completed_process outcome" where
  "run_fetch_cmd w self url output_filename as_comment s =
     (let cmd = fetcher self @ '' '' @ url;
          cmd = (if fetcher self = ''curl'' then
                   (let cmd = cmd @ '' --location --output '' @ output_filename
                    in if \<not> verbose self then cmd @ '' --progress-bar'' else cmd)
                 else cmd);
          cmd = (if fetcher self = ''wget'' then
                   (let cmd = cmd @ '' --output-document '' @ output_filename
                    in if \<not> verbose self then cmd @ '' --quiet --show-progress'' else cmd)
                 else cmd)
      in run_cmd w cmd as_comment False s)"

text \<open>
  \<open>Installer.install_env_manager\<close>. A manager without installer link, directory or
  options makes the attribute access, the \<open>Path\<close> or the \<open>join\<close> raise.
\<close>

definition install_env_manager ::
  "world \<Rightarrow> installer \<Rightarrow> environment_manager \<Rightarrow> io \<Rightarrow> installer outcome" where
  "install_env_manager w self to_install s =
     (case uname_convert self (executable to_install) of
        Inl e \<Rightarrow> Raise e s
      | Inr (k, a) \<Rightarrow>
          (case installer_link to_install of
             None \<Rightarrow> Raise AttributeError s
           | Some link \<Rightarrow>
               (case directory to_install of
                  None \<Rightarrow> Raise TypeError s
                | Some dir \<Rightarrow>
                    (let installer_link = format_link link k a;
                         installer_dir = expanduser w dir;
                         installer_path =
                           path_join installer_dir (name to_install @ ''-installer.sh'');
                         s = (if \<not> dry_run self
                              then s\<lparr>events := events s @ [Mkdir installer_dir]\<rparr> else s)
                     in bind (run_fetch_cmd w self installer_link installer_path (dry_run self) s)
                          (\<lambda>_ s.
                             case installer_options to_install of
                               None \<Rightarrow> Raise TypeError s
                             | Some opts \<Rightarrow>
                                 bind (run_cmd w
                                         (''bash '' @ installer_path @ '' '' @ join '' '' opts
                                            @ '' '' @ installer_dir)
                                         (dry_run self) (\<not> verbose self) s)
                                   (\<lambda>_ s.
                                      let s = (if \<not> dry_run self
                                               then s\<lparr>events := events s @ [Unlink installer_path]\<rparr>
                                               else s)
                                      in Return (self\<lparr>env_manager := Some to_install\<rparr>) s))))))"

text \<open>\<open>Installer.setup_env_manager\<close>\<close>

definition setup_env_manager :: "world \<Rightarrow> installer \<Rightarrow> io \<Rightarrow> unit outcome" where
  "setup_env_manager w self s =
     (case env_manager self of
        None \<Rightarrow> Raise AttributeError s
      | Some m \<Rightarrow>
          if executable m = ''conda'' then
            bind (run_env_manager_cmd w self
                    ''conda tos accept --override-channels --channel https://repo.anaconda.com/pkgs/main''
                    (dry_run self) False s)
              (\<lambda>_ s.
                 bind (run_env_manager_cmd w self
                         ''conda tos accept --override-channels --channel https://repo.anaconda.com/pkgs/r''
                         (dry_run self) False s)
                   (\<lambda>_ s. Return () s))
          else if executable m = ''mamba'' then
            (case environ w ''SHELL'' of
               None \<Rightarrow> Raise KeyError s
             | Some sh \<Rightarrow>
                 (let cmd = ''mamba shell init --shell '' @ stem sh;
                      as_comment = (dry_run self \<and> \<not> env_manager_preinitialized self);
                      cmd = (if dry_run self \<and> env_manager_preinitialized self
                             then cmd @ '' --dry-run'' else cmd)
                  in bind (run_env_manager_cmd w self cmd as_comment False s)
                       (\<lambda>_ s. Return () s)))
          else Return () s)"

subsection \<open>Finding the manager\<close>

definition ERROR_ENV_MANAGER_ALREADY_INSTALLED :: "string \<Rightarrow> string \<Rightarrow> string" where
  "ERROR_ENV_MANAGER_ALREADY_INSTALLED to_install already_installed =
     [NL] @ ''Requested installation of `'' @ to_install @ ''` but `'' @ already_installed
          @ ''` was already found on''
   @ [NL] @ ''the system.''
   @ [NL]"

definition ERROR_ENV_MANAGER_EXISTS_WITHOUT_PATH :: "string \<Rightarrow> string \<Rightarrow> string" where
  "ERROR_ENV_MANAGER_EXISTS_WITHOUT_PATH env_mgr activation_script_path =
     [NL, NL] @ ''`'' @ env_mgr @ '' is not present in $PATH, but an activation script exists at''
   @ [NL] @ activation_script_path @ ''. Follow the '' @ env_mgr
          @ '' instructions for initializing your''
   @ [NL] @ ''shell, then restart your terminal session.''
   @ [NL]"

text \<open>
  The \<open>for\<close> loop of \<open>find_env_manager\<close>, which leaves at the first manager that is on
  the search path or has its activation script on disk. The second component is the loop
  variable, which the code reads again after the loop.
\<close>

fun detect_loop ::
  "world \<Rightarrow> environment_manager list \<Rightarrow> installer \<Rightarrow> environment_manager option \<Rightarrow>
   installer \<times> environment_manager option" where
  "detect_loop w [] self loop_var = (self, loop_var)"
| "detect_loop w (m # ms) self loop_var =
     (let in_path = which w (executable m);
          activation_script_exists =
            (case activation_script m of None \<Rightarrow> False | Some p \<Rightarrow> path_exists w p)
      in if in_path \<or> activation_script_exists then
           (let self = self\<lparr>env_manager := Some m\<rparr>;
                self = (if in_path then self\<lparr>env_manager_preinitialized := True\<rparr> else self)
            in (self, Some m))
         else detect_loop w ms self (Some m))"

text \<open>\<open>str(p)\<close> of an optional path\<close>

definition str_of_path :: "string option \<Rightarrow> string" where
  "str_of_path p = (case p of None \<Rightarrow> ''None'' | Some q \<Rightarrow> q)"

text \<open>\<open>sorted\<close> on strings: lexicographic by code point.\<close>

fun str_le :: "string \<Rightarrow> string \<Rightarrow> bool" where
  "str_le [] t = True"
| "str_le (c # cs) [] = False"
| "str_le (c # cs) (d # ds) =
     ((of_char c :: nat) < of_char d \<or> (c = d \<and> str_le cs ds))"

fun insert_sorted :: "string \<Rightarrow> string list \<Rightarrow> string list" where
  "insert_sorted x [] = [x]"
| "insert_sorted x (y # ys) = (if str_le x y then x # y # ys else y # insert_sorted x ys)"

definition sorted_strings :: "string list \<Rightarrow> string list" where
  "sorted_strings xs = foldr insert_sorted xs []"

text \<open>\<open>Installer.find_env_manager\<close>\<close>

definition find_env_manager ::
  "world \<Rightarrow> installer \<Rightarrow> string option \<Rightarrow> io \<Rightarrow> installer outcome" where
  "find_env_manager w self name_to_install s =
     (case detect_loop w (ENV_MANAGER_INFO w) self None of
        (self, loop_var) \<Rightarrow>
          if env_manager self \<noteq> None \<and> name_to_install \<noteq> None then
            (case env_manager self of
               None \<Rightarrow> Raise AttributeError s
             | Some found \<Rightarrow>
                 (case name_to_install of
                    None \<Rightarrow> Raise TypeError s
                  | Some requested \<Rightarrow>
                      (let error_message =
                             ERROR_ENV_MANAGER_ALREADY_INSTALLED requested (executable found)
                       in if \<not> env_manager_preinitialized self then
                            (case loop_var of
                               None \<Rightarrow> Raise UnboundLocalError s
                             | Some lv \<Rightarrow>
                                 Raise (RAILInstallationError
                                   (error_message @ ERROR_ENV_MANAGER_EXISTS_WITHOUT_PATH
                                      (executable found) (str_of_path (activation_script lv))) 1) s)
                          else Raise (RAILInstallationError error_message 1) s)))
          else
            bind (if env_manager self = None then
                    bind (case name_to_install of
                            None \<Rightarrow>
                              request_input w
                                ''Which Python environment manager should be installed?''
                                (sorted_strings
                                   (map name (filter installable (ENV_MANAGER_INFO w))))
                                False None s
                          | Some requested \<Rightarrow> Return requested s)
                      (\<lambda>requested s.
                         case filter (\<lambda>e. name e = requested) (ENV_MANAGER_INFO w) of
                           [] \<Rightarrow> Raise IndexError s
                         | e # _ \<Rightarrow> install_env_manager w self e s)
                  else Return self s)
              (\<lambda>self s.
                 bind (setup_env_manager w self s)
                   (\<lambda>_ s. bind (check_env_manager_version w self s)
                      (\<lambda>_ s. Return self s))))"

subsection \<open>Choosing the environment name and creating the environment\<close>

text \<open>
  The names of the environments that exist, as \<open>choose_env_name\<close> computes them: only a
  preinitialised manager is asked, and otherwise the list is empty.
\<close>

definition existing_names_of :: "world \<Rightarrow> installer \<Rightarrow> io \<Rightarrow> string list outcome" where
  "existing_names_of w self s =
     (if env_manager_preinitialized self then
        (case env_manager self of
           None \<Rightarrow> Raise AttributeError s
         | Some m \<Rightarrow>
             bind (run_cmd w (executable m @ '' env list --json'') False True s)
               (\<lambda>env_list_output s.
                  case stdout env_list_output of
                    None \<Rightarrow> Raise TypeError s
                  | Some out \<Rightarrow>
                      (case json_envs w out of
                         Inl e \<Rightarrow> Raise e s
                       | Inr existing_prefixes \<Rightarrow>
                           bind (run_cmd w (executable m @ '' info --base --json'') False True s)
                             (\<lambda>info_output s.
                                case stdout info_output of
                                  None \<Rightarrow> Raise TypeError s
                                | Some out \<Rightarrow>
                                    (case json_first_value w out of
                                       Inl e \<Rightarrow> Raise e s
                                     | Inr base_prefix \<Rightarrow>
                                         Return
                                           (map stem
                                              (filter (\<lambda>e. e \<noteq> base_prefix) existing_prefixes))
                                           s)))))
      else Return [] s)"

text \<open>\<open>Installer.choose_env_name\<close>\<close>

definition choose_env_name ::
  "world \<Rightarrow> installer \<Rightarrow> string option \<Rightarrow> io \<Rightarrow> installer outcome" where
  "choose_env_name w self env_name_arg s =
     bind (existing_names_of w self s)
       (\<lambda>existing_names s.
          case env_name_arg of
            Some nm \<Rightarrow>
              if check_env_name nm existing_names then Return (self\<lparr>env_name := Some nm\<rparr>) s
              else Raise (RAILInstallationError
                     (''Supplied environment name '' @ nm @ '' already exists'') 1) s
          | None \<Rightarrow>
              bind (request_input w
                      (''Name of new virtual environment to install '' @ RAIL_COLORIZED w @ '' in:'')
                      [] True (Some (\<lambda>nm. check_env_name nm existing_names)) s)
                (\<lambda>result s. Return (self\<lparr>env_name := Some result\<rparr>) s))"

text \<open>\<open>Installer.create_env\<close>\<close>

definition create_env_cmd :: "installer \<Rightarrow> string \<Rightarrow> string \<Rightarrow> string \<Rightarrow> string" where
  "create_env_cmd self exe nm lockfile =
     (let cmd = exe @ '' env create --name '' @ nm @ '' --file '' @ lockfile @ '' --yes'';
          cmd = (if dry_run self \<and> env_manager_preinitialized self
                 then cmd @ '' --dry-run'' else cmd);
          cmd = (if \<not> verbose self then cmd @ '' --quiet'' else cmd)
      in cmd)"

definition create_env :: "world \<Rightarrow> installer \<Rightarrow> io \<Rightarrow> unit outcome" where
  "create_env w self s =
     (case uname_convert self ''conda-lock'' of
        Inl e \<Rightarrow> Raise e s
      | Inr (k, a) \<Rightarrow>
          (let lockfile = ''lockfiles/conda-'' @ k @ ''-'' @ a @ ''.lock'';
               lockfile = (if \<not> path_exists w lockfile
                           then ''https://raw.githubusercontent.com/LSSTDESC/rail/refs/heads/main/environment.yml''
                           else lockfile)
           in case env_manager self of
                None \<Rightarrow> Raise AttributeError s
              | Some m \<Rightarrow>
                  (case env_name self of
                     None \<Rightarrow> Raise AttributeError s
                   | Some nm \<Rightarrow>
                       bind (run_env_manager_cmd w self
                               (create_env_cmd self (executable m) nm lockfile)
                               (dry_run self \<and> \<not> env_manager_preinitialized self) False s)
                         (\<lambda>_ s. Return () s))))"

subsection \<open>Installing the packages and the whole run\<close>

definition EXTRA_RAIL_PACKAGES :: "string list" where
  "EXTRA_RAIL_PACKAGES =
     [''pz-rail-astro-tools'', ''pz-rail-bpz'', ''pz-rail-cmnn'', ''pz-rail-dnf'',
      ''pz-rail-dsps'', ''pz-rail-flexzboost'', ''pz-rail-fsps'', ''pz-rail-gpz-v1'',
      ''pz-rail-pzflow'', ''pz-rail-sklearn'', ''pz-rail-som'', ''pz-rail-yaw'',
      ''pz-rail-lephare'']"

text \<open>The selection of packages is a string or a list of strings.\<close>

datatype selection = Sel_str string | Sel_list "string list"

text \<open>The list comprehension that asks for each package in turn.\<close>

fun ask_each :: "world \<Rightarrow> string list \<Rightarrow> io \<Rightarrow> string list outcome" where
  "ask_each w [] s = Return [] s"
| "ask_each w (algo # algos) s =
     bind (request_input w (''Install '' @ algo @ ''?'') [''y'', ''n''] False None s)
       (\<lambda>answer s.
          bind (ask_each w algos s)
            (\<lambda>rest s. Return (if answer = ''y'' then algo # rest else rest) s))"

text \<open>\<open>choose_algorithms\<close>\<close>

definition choose_algorithms :: "world \<Rightarrow> selection option \<Rightarrow> io \<Rightarrow> string list outcome" where
  "choose_algorithms w cli_selection s =
     bind (case cli_selection of
             None \<Rightarrow>
               bind (request_input w ''Which algorithms should be installed?''
                       [''all'', ''none'', ''select''] False None s)
                 (\<lambda>r s. Return (Sel_str r) s)
           | Some c \<Rightarrow> Return c s)
       (\<lambda>cli_selection s.
          if cli_selection = Sel_str ''all'' then Return EXTRA_RAIL_PACKAGES s
          else if cli_selection = Sel_str ''none'' then Return [] s
          else case cli_selection of
                 Sel_list l \<Rightarrow> Return l s
               | Sel_str _ \<Rightarrow> ask_each w EXTRA_RAIL_PACKAGES s)"

text \<open>\<open>choose_additional_dependencies\<close>\<close>

definition choose_additional_dependencies ::
  "world \<Rightarrow> string option \<Rightarrow> io \<Rightarrow> string list outcome" where
  "choose_additional_dependencies w cli_selection s =
     (let packages = [''jupyter'', ''seaborn'', ''corner'', ''matplotlib'']
      in if cli_selection = Some ''yes'' then Return packages s
         else if cli_selection = None then
           bind (request_input w
                   (''Install additional packages: '' @ join '', '' packages @ ''?'')
                   [''y'', ''n''] False None s)
             (\<lambda>answer s. Return (if answer = ''y'' then packages else []) s)
         else Return [] s)"

text \<open>\<open>Installer.run_in_env_cmd\<close>\<close>

definition run_in_env_cmd ::
  "world \<Rightarrow> installer \<Rightarrow> string \<Rightarrow> bool \<Rightarrow> io \<Rightarrow> completed_process outcome" where
  "run_in_env_cmd w self cmd as_comment s =
     (case env_manager self of
        None \<Rightarrow> Raise AttributeError s
      | Some m \<Rightarrow>
          (case env_name self of
             None \<Rightarrow> Raise AttributeError s
           | Some nm \<Rightarrow>
               run_env_manager_cmd w self
                 (executable m @ '' run ''
                    @ (if executable m = ''conda'' then '' --no-capture-output'' else [])
                    @ '' --name '' @ nm @ '' '' @ cmd)
                 as_comment False s))"

text \<open>\<open>Installer.pip_install_package\<close>\<close>

definition pip_install_package :: "world \<Rightarrow> installer \<Rightarrow> string \<Rightarrow> io \<Rightarrow> unit outcome" where
  "pip_install_package w self package s =
     bind (run_in_env_cmd w self
             (''pip install '' @ package @ (if verbose self then [] else '' --quiet''))
             (dry_run self) s)
       (\<lambda>_ s. Return () s)"

fun pip_install_each :: "world \<Rightarrow> installer \<Rightarrow> string list \<Rightarrow> io \<Rightarrow> unit outcome" where
  "pip_install_each w self [] s = Return () s"
| "pip_install_each w self (package # packages) s =
     bind (pip_install_package w self package s)
       (\<lambda>_ s. pip_install_each w self packages s)"

text \<open>\<open>Installer.pip_install\<close>\<close>

definition pip_install ::
  "world \<Rightarrow> installer \<Rightarrow> selection option \<Rightarrow> string option \<Rightarrow> io \<Rightarrow> unit outcome" where
  "pip_install w self rail_selection devtool_selection s =
     bind (choose_algorithms w rail_selection s)
       (\<lambda>algos s.
          let rail_packages = ''pz-rail'' # algos
          in bind (choose_additional_dependencies w devtool_selection s)
               (\<lambda>grouped_packages s.
                  bind (run_in_env_cmd w self ''python -m ensurepip --upgrade'' (dry_run self) s)
                    (\<lambda>_ s.
                       bind (if length grouped_packages > 0
                             then pip_install_package w self (join '' '' grouped_packages) s
                             else Return () s)
                         (\<lambda>_ s. pip_install_each w self rail_packages s))))"

text \<open>\<open>Installer.post_install\<close>; the closing message reads the manager and the name.\<close>

definition post_install :: "world \<Rightarrow> installer \<Rightarrow> bool \<Rightarrow> io \<Rightarrow> unit outcome" where
  "post_install w self clean s =
     bind (if clean then
             bind (run_in_env_cmd w self ''conda clean --all --yes'' False s)
               (\<lambda>_ s. bind (run_in_env_cmd w self ''pip cache purge'' False s)
                  (\<lambda>_ s. Return () s))
           else Return () s)
       (\<lambda>_ s. if env_manager self = None \<or> env_name self = None
               then Raise AttributeError s else Return () s)"

text \<open>
  \<open>Installer.run\<close>: the five stages in sequence. An interrupt from the keyboard is no
  part of the machine modelled here.
\<close>

definition run ::
  "world \<Rightarrow> installer \<Rightarrow> string option \<Rightarrow> string option \<Rightarrow> selection option \<Rightarrow>
   string option \<Rightarrow> bool \<Rightarrow> io \<Rightarrow> unit outcome" where
  "run w self env_manager_to_install env_name_arg rail_selection devtool_selection clean s =
     bind (find_env_manager w self env_manager_to_install s)
       (\<lambda>self s.
          bind (choose_env_name w self env_name_arg s)
            (\<lambda>self s.
               bind (create_env w self s)
                 (\<lambda>_ s.
                    bind (pip_install w self rail_selection devtool_selection s)
                      (\<lambda>_ s. post_install w self clean s))))"

subsection \<open>Notions used in the properties, and a machine to run examples on\<close>

text \<open>A manager is detectable when its executable is on the search path or its activation
  script is on disk.\<close>

definition detectable :: "world \<Rightarrow> environment_manager \<Rightarrow> bool" where
  "detectable w m =
     (which w (executable m)
      \<or> (case activation_script m of None \<Rightarrow> False | Some p \<Rightarrow> path_exists w p))"

text \<open>
  A machine for the examples: every command gives \<open>result cmd\<close>, the operator types
  \<open>lines\<close> and then the input ends, the home directory is \<open>/home/u\<close> and the shell is
  bash; the manager reports its base and one environment, \<open>analysis\<close>.
\<close>

definition example_world ::
  "(string \<Rightarrow> bool) \<Rightarrow> (string \<Rightarrow> bool) \<Rightarrow> (string \<Rightarrow> completed_process) \<Rightarrow> bool \<Rightarrow>
   string list \<Rightarrow> world" where
  "example_world on_path on_disk result tty lines =
     \<lparr>which = on_path, path_exists = on_disk,
      subprocess_run = (\<lambda>past cmd capture_output. result cmd),
      isatty = tty,
      stdin = (\<lambda>n. if n < length lines then Some (lines ! n) else None),
      home = ''/home/u'',
      environ = (\<lambda>k. if k = ''SHELL'' then Some ''/bin/bash'' else None),
      json_envs = (\<lambda>out. Inr [''/home/u/miniconda3'', ''/home/u/miniconda3/envs/analysis'']),
      json_first_value = (\<lambda>out. Inr ''/home/u/miniconda3'')\<rparr>"

definition io0 :: io where
  "io0 = \<lparr>events = [], consumed = 0\<rparr>"

definition fresh :: installer where
  "fresh = Installer ''curl'' False False ''Linux'' ''x86_64''"

definition version_reply :: "string \<Rightarrow> completed_process" where
  "version_reply out = \<lparr>returncode = 0, stdout = Some out, stderr = Some []\<rparr>"

text \<open>Nothing installed.\<close>

definition bare_world :: world where
  "bare_world = example_world (\<lambda>exe. False) (\<lambda>p. False) (\<lambda>cmd. version_reply ''1.5.8'') True []"

text \<open>micromamba on the search path.\<close>

definition micromamba_world :: world where
  "micromamba_world =
     example_world (\<lambda>exe. exe = ''micromamba'') (\<lambda>p. False) (\<lambda>cmd. version_reply ''1.5.8'') True []"

text \<open>An old miniforge on disk, nothing on the search path.\<close>

definition script_world :: world where
  "script_world =
     example_world (\<lambda>exe. False) (\<lambda>p. p = ''/home/u/miniforge3/bin/activate'')
       (\<lambda>cmd. version_reply ''conda 4.0.0'') True []"

text \<open>An old conda on the search path, no activation script on disk.\<close>

definition old_conda_world :: world where
  "old_conda_world =
     example_world (\<lambda>exe. exe = ''conda'') (\<lambda>p. False) (\<lambda>cmd. version_reply ''conda 4.0.0'') True []"

text \<open>conda on the search path, and every activation script on disk.\<close>

definition both_world :: world where
  "both_world =
     example_world (\<lambda>exe. exe = ''conda'') (\<lambda>p. True) (\<lambda>cmd. version_reply ''conda 24.1.0'') True []"

text \<open>A conda on the search path that reports the version \<open>23.5\<close>.\<close>

definition short_version_world :: world where
  "short_version_world =
     example_world (\<lambda>exe. exe = ''conda'') (\<lambda>p. False) (\<lambda>cmd. version_reply ''conda 23.5'') True []"

text \<open>A terminal where the operator types an empty line, then \<open>analysis\<close>, then
  \<open>rail\<close>; nothing is installed.\<close>

definition name_world :: world where
  "name_world =
     example_world (\<lambda>exe. False) (\<lambda>p. False) (\<lambda>cmd. version_reply ''1.5.8'') True
       ['''', ''analysis'', ''rail'']"

text \<open>A terminal where the operator types \<open>mamba\<close> for ever.\<close>

definition chatty_world :: world where
  "chatty_world = bare_world\<lparr>stdin := (\<lambda>n. Some ''mamba'')\<rparr>"

definition dry :: installer where
  "dry = Installer ''curl'' True False ''Linux'' ''x86_64''"

text \<open>An old miniconda: conda on the search path, its activation script on disk.\<close>

definition old_miniconda_world :: world where
  "old_miniconda_world =
     example_world (\<lambda>exe. exe = ''conda'') (\<lambda>p. p = ''/home/u/miniconda3/bin/activate'')
       (\<lambda>cmd. version_reply ''conda 4.0.0'') True []"

text \<open>An up-to-date miniconda, on the search path and on disk, that lists its base and one
  environment, \<open>py3.10\<close>.\<close>

definition dotted_world :: world where
  "dotted_world =
     (example_world (\<lambda>exe. exe = ''conda'') (\<lambda>p. p = ''/home/u/miniconda3/bin/activate'')
        (\<lambda>cmd. version_reply ''conda 24.1.0'') True [])
     \<lparr>json_envs := (\<lambda>out. Inr [''/home/u/miniconda3'', ''/home/u/miniconda3/envs/py3.10''])\<rparr>"

text \<open>The installer and the state of the machine after \<open>find_env_manager\<close> there, and
  the state after the names were listed.\<close>

definition dotted_found :: installer where
  "dotted_found =
     fresh\<lparr>env_manager := Some (ENV_MANAGER_INFO dotted_world ! 2),
           env_manager_preinitialized := True\<rparr>"

definition dotted_found_io :: io where
  "dotted_found_io =
     \<lparr>events =
        [Cmd ''. /home/u/miniconda3/bin/activate && conda tos accept --override-channels --channel https://repo.anaconda.com/pkgs/main'',
         Cmd ''. /home/u/miniconda3/bin/activate && conda tos accept --override-channels --channel https://repo.anaconda.com/pkgs/r'',
         Cmd ''. /home/u/miniconda3/bin/activate && conda --version''],
      consumed = 0\<rparr>"

definition dotted_listed_io :: io where
  "dotted_listed_io =
     dotted_found_io\<lparr>events := events dotted_found_io
        @ [Cmd ''conda env list --json'', Cmd ''conda info --base --json'']\<rparr>"

section \<open>Properties\<close>

subsection \<open>The registry on the example machines\<close>

lemma expanduser_home_u:
  "home w = ''/home/u'' \<Longrightarrow> expanduser w ''~/miniforge3'' = ''/home/u/miniforge3''"
  "home w = ''/home/u'' \<Longrightarrow> expanduser w ''~/miniconda3'' = ''/home/u/miniconda3''"
  "home w = ''/home/u'' \<Longrightarrow> expanduser w ''~/anaconda3'' = ''/home/u/anaconda3''"
  by (simp_all add: expanduser_def path_str_def path_root_def path_parts_def split_str_def)

lemma activate_home_u:
  "path_join (path_join ''/home/u/miniforge3'' ''bin'') ''activate''
     = ''/home/u/miniforge3/bin/activate''"
  "path_join (path_join ''/home/u/miniconda3'' ''bin'') ''activate''
     = ''/home/u/miniconda3/bin/activate''"
  "path_join (path_join ''/home/u/anaconda3'' ''bin'') ''activate''
     = ''/home/u/anaconda3/bin/activate''"
  by (simp_all add: path_join_def path_str_def path_root_def path_parts_def split_str_def)

subsection \<open>Strings\<close>

lemma startswith_append: "startswith (p @ b) p"
  by (induction p) auto

lemma contains_append: "contains (a @ p @ b) p"
proof (induction a)
  case Nil
  show ?case
    by (cases "p @ b") (use startswith_append[of p b] in auto)
next
  case (Cons c a)
  then show ?case by simp
qed

subsection \<open>The command executor\<close>

text \<open>
  C7, as amended. When a command returns a code that is not zero, \<open>run_cmd\<close> raises the
  installation error with that code. If at least one of the two streams was captured, the
  message carries the trimmed standard output and the trimmed standard error, with a
  placeholder for the one that was not captured; if neither was captured, the message is
  the bare failure text without any placeholder. In both cases the hint on the machine's
  resources follows exactly when the code is not 127.
\<close>

theorem run_cmd_failure_message:
  assumes "output = subprocess_run w (events s) (if as_comment then ''# '' @ cmd else cmd)
                      capture_output"
      and "returncode output \<noteq> 0"
  shows "run_cmd w cmd as_comment capture_output s =
           Raise (RAILInstallationError
                    (''CLI command failed''
                       @ (if stdout output = None \<and> stderr output = None then []
                          else '': ''
                            @ (case stdout output of Some out \<Rightarrow> strip out
                               | None \<Rightarrow> ''No output from command'')
                            @ [NL]
                            @ (case stderr output of Some err \<Rightarrow> strip err
                               | None \<Rightarrow> ''No error from command''))
                       @ (if returncode output = 127 then [] else [NL] @ ERROR_SPECS_MESSAGE))
                    (returncode output))
             (s\<lparr>events := events s @ [Cmd (if as_comment then ''# '' @ cmd else cmd)]\<rparr>)"
  using assms
  by (auto simp: run_cmd_def run_cmd_error_message_def Let_def split: option.splits)

theorem run_cmd_failure_message_witness:
  "returncode \<lparr>returncode = 127, stdout = Some '' '', stderr = Some ''sh: 1: conda: not found''\<rparr> \<noteq> 0
   \<and> run_cmd (example_world (\<lambda>_. False) (\<lambda>_. False)
               (\<lambda>_. \<lparr>returncode = 127, stdout = Some '' '',
                      stderr = Some ''sh: 1: conda: not found''\<rparr>) True [])
        ''conda --version'' False True io0
     = Raise (RAILInstallationError
                (''CLI command failed: '' @ strip '' '' @ [NL] @ strip ''sh: 1: conda: not found'')
                127)
         \<lparr>events = [Cmd ''conda --version''], consumed = 0\<rparr>"
  using run_cmd_failure_message
    [of "\<lparr>returncode = 127, stdout = Some '' '', stderr = Some ''sh: 1: conda: not found''\<rparr>"
        "example_world (\<lambda>_. False) (\<lambda>_. False)
           (\<lambda>_. \<lparr>returncode = 127, stdout = Some '' '',
                  stderr = Some ''sh: 1: conda: not found''\<rparr>) True []"
        io0 False "''conda --version''" True]
  by (simp add: example_world_def io0_def)

text \<open>
  C7 as stated fails when neither stream was captured, which is what \<open>subprocess.run\<close>
  gives without \<open>capture_output\<close>: the command fails with code 1, and the message holds
  neither of the two placeholders.
\<close>

theorem run_cmd_uncaptured_counterexample:
  "run_cmd (example_world (\<lambda>_. False) (\<lambda>_. False)
              (\<lambda>_. \<lparr>returncode = 1, stdout = None, stderr = None\<rparr>) False [])
     ''false'' False False io0
   = Raise (SystemExit ([NL] @ ''CLI command failed'' @ [NL] @ ERROR_SPECS_MESSAGE) 1)
       \<lparr>events = [Cmd ''false''], consumed = 0\<rparr>
   \<and> \<not> contains ([NL] @ ''CLI command failed'' @ [NL] @ ERROR_SPECS_MESSAGE)
          ''No output from command''
   \<and> \<not> contains ([NL] @ ''CLI command failed'' @ [NL] @ ERROR_SPECS_MESSAGE)
          ''No error from command''"
  by (simp add: run_cmd_def run_cmd_error_message_def example_world_def io0_def
      RAILInstallationError_def endswith_def ERROR_SPECS_MESSAGE_def)

subsection \<open>Running a command through the manager\<close>

text \<open>
  C4. With a manager resolved, \<open>run_env_manager_cmd\<close> has three cases. Without an
  activation script and with the executable on the search path, it hands the command to
  \<open>run_cmd\<close> as it is. With an activation script, the command it hands on is the dot
  command on the script, \<open>&&\<close>, and the command, as one shell line. Without an
  activation script and without the executable on the search path, it raises the
  installation error and runs nothing: the record of events is the one it started with.
\<close>

theorem run_env_manager_cmd_three_cases:
  assumes "env_manager self = Some m"
  shows "(activation_script m = None \<and> which w (executable m) \<longrightarrow>
            run_env_manager_cmd w self cmd as_comment capture_output s =
              run_cmd w cmd as_comment capture_output s)
       \<and> (\<forall>script. activation_script m = Some script \<longrightarrow>
            run_env_manager_cmd w self cmd as_comment capture_output s =
              run_cmd w (''. '' @ script @ '' && '' @ cmd) as_comment capture_output s)
       \<and> (activation_script m = None \<and> \<not> which w (executable m) \<longrightarrow>
            run_env_manager_cmd w self cmd as_comment capture_output s =
              Raise (RAILInstallationError
                ''Something went wrong finding/activating the Python virtual environment manager.''
                1) s)"
  using assms by (simp add: run_env_manager_cmd_def)

theorem run_env_manager_cmd_three_cases_witness:
  "run_env_manager_cmd micromamba_world
      (fresh\<lparr>env_manager := Some (ENV_MANAGER_INFO micromamba_world ! 0)\<rparr>)
      ''micromamba --version'' False True io0
    = Return (version_reply ''1.5.8'')
        \<lparr>events = [Cmd ''micromamba --version''], consumed = 0\<rparr>
  \<and> run_env_manager_cmd script_world
      (fresh\<lparr>env_manager := Some (ENV_MANAGER_INFO script_world ! 1)\<rparr>)
      ''conda --version'' False True io0
    = Return (version_reply ''conda 4.0.0'')
        \<lparr>events = [Cmd ''. /home/u/miniforge3/bin/activate && conda --version''], consumed = 0\<rparr>
  \<and> run_env_manager_cmd bare_world
      (fresh\<lparr>env_manager := Some (ENV_MANAGER_INFO bare_world ! 0)\<rparr>)
      ''micromamba --version'' False True io0
    = Raise (RAILInstallationError
        ''Something went wrong finding/activating the Python virtual environment manager.'' 1) io0"
  using run_env_manager_cmd_three_cases
          [of "fresh\<lparr>env_manager := Some (ENV_MANAGER_INFO micromamba_world ! 0)\<rparr>"
              "ENV_MANAGER_INFO micromamba_world ! 0" micromamba_world
              "''micromamba --version''" False True io0]
        run_env_manager_cmd_three_cases
          [of "fresh\<lparr>env_manager := Some (ENV_MANAGER_INFO script_world ! 1)\<rparr>"
              "ENV_MANAGER_INFO script_world ! 1" script_world
              "''conda --version''" False True io0]
        run_env_manager_cmd_three_cases
          [of "fresh\<lparr>env_manager := Some (ENV_MANAGER_INFO bare_world ! 0)\<rparr>"
              "ENV_MANAGER_INFO bare_world ! 0" bare_world
              "''micromamba --version''" False True io0]
  by (simp add: fresh_def Installer_def ENV_MANAGER_INFO_def EnvironmentManager_def
      micromamba_world_def script_world_def bare_world_def version_reply_def
      example_world_def expanduser_home_u activate_home_u run_cmd_def io0_def)

subsection \<open>Detecting a manager\<close>

lemma detect_loop_none:
  "\<forall>m \<in> set ms. \<not> detectable w m \<Longrightarrow>
   detect_loop w ms self lv = (self, if ms = [] then lv else Some (last ms))"
  by (induction ms arbitrary: lv) (auto simp: detectable_def Let_def)

lemma detect_loop_first:
  "i < length ms \<Longrightarrow> detectable w (ms ! i) \<Longrightarrow> \<forall>j<i. \<not> detectable w (ms ! j) \<Longrightarrow>
   detect_loop w ms self lv =
     (self\<lparr>env_manager := Some (ms ! i),
           env_manager_preinitialized :=
             (which w (executable (ms ! i)) \<or> env_manager_preinitialized self)\<rparr>,
      Some (ms ! i))"
proof (induction ms arbitrary: i lv)
  case Nil
  then show ?case by simp
next
  case (Cons m ms)
  show ?case
  proof (cases i)
    case 0
    with Cons.prems show ?thesis
      by (auto simp: detectable_def Let_def)
  next
    case (Suc k)
    with Cons.prems have nd: "\<not> detectable w m" by auto
    from Suc Cons.prems have "k < length ms" "detectable w (ms ! k)"
      "\<forall>j<k. \<not> detectable w (ms ! j)" by auto
    from Cons.IH[OF this] nd Suc show ?thesis
      by (simp add: detectable_def Let_def)
  qed
qed

lemma first_detectable:
  "(\<forall>m \<in> set ms. \<not> detectable w m)
   \<or> (\<exists>i<length ms. detectable w (ms ! i) \<and> (\<forall>j<i. \<not> detectable w (ms ! j)))"
proof (cases "find (detectable w) ms")
  case None
  then show ?thesis by (simp add: find_None_iff)
next
  case (Some m)
  then show ?thesis by (auto simp: find_Some_iff)
qed

text \<open>
  C1. Whatever managers are detectable at the same time, the loop of
  \<open>find_env_manager\<close>, started on a new installer, selects the one that comes first in
  \<open>ENV_MANAGER_INFO\<close>: if the manager at place \<open>i\<close> is detectable and none before it
  is, that manager is selected, and \<open>env_manager_preinitialized\<close> is set exactly when
  its executable is on the search path. Nothing but the order of the registry enters.
\<close>

theorem detection_selects_first_declared:
  assumes "i < length (ENV_MANAGER_INFO w)"
      and "detectable w (ENV_MANAGER_INFO w ! i)"
      and "\<forall>j<i. \<not> detectable w (ENV_MANAGER_INFO w ! j)"
  shows "detect_loop w (ENV_MANAGER_INFO w) (Installer f d v k a) None =
           ((Installer f d v k a)
              \<lparr>env_manager := Some (ENV_MANAGER_INFO w ! i),
               env_manager_preinitialized := which w (executable (ENV_MANAGER_INFO w ! i))\<rparr>,
            Some (ENV_MANAGER_INFO w ! i))"
  using detect_loop_first[OF assms, of "Installer f d v k a" None]
  by (simp add: Installer_def)

text \<open>
  With conda on the search path and every activation script on disk, mamba, miniconda and
  anaconda are all detectable; mamba is declared first and is selected, and since it was
  found through its script only, the installer is not preinitialised.
\<close>

theorem detection_selects_first_declared_witness:
  "detectable both_world (ENV_MANAGER_INFO both_world ! 1)
   \<and> detectable both_world (ENV_MANAGER_INFO both_world ! 2)
   \<and> detectable both_world (ENV_MANAGER_INFO both_world ! 3)
   \<and> env_manager (fst (detect_loop both_world (ENV_MANAGER_INFO both_world) fresh None))
       = Some (ENV_MANAGER_INFO both_world ! 1)
   \<and> name (ENV_MANAGER_INFO both_world ! 1) = ''mamba''
   \<and> \<not> env_manager_preinitialized
         (fst (detect_loop both_world (ENV_MANAGER_INFO both_world) fresh None))"
proof -
  have h1: "1 < length (ENV_MANAGER_INFO both_world)"
    by (simp add: ENV_MANAGER_INFO_def)
  have h2: "detectable both_world (ENV_MANAGER_INFO both_world ! 1)"
    by (simp add: ENV_MANAGER_INFO_def detectable_def EnvironmentManager_def both_world_def
        example_world_def)
  have h2': "detectable both_world (ENV_MANAGER_INFO both_world ! 2)"
    "detectable both_world (ENV_MANAGER_INFO both_world ! 3)"
    by (simp_all add: ENV_MANAGER_INFO_def detectable_def EnvironmentManager_def both_world_def
        example_world_def)
  have h3: "\<forall>j<1. \<not> detectable both_world (ENV_MANAGER_INFO both_world ! j)"
    by (simp add: ENV_MANAGER_INFO_def detectable_def EnvironmentManager_def both_world_def
        example_world_def)
  have nm: "name (ENV_MANAGER_INFO both_world ! 1) = ''mamba''"
     "\<not> which both_world (executable (ENV_MANAGER_INFO both_world ! 1))"
    by (simp_all add: ENV_MANAGER_INFO_def EnvironmentManager_def both_world_def
        example_world_def)
  show ?thesis
    using detection_selects_first_declared
            [OF h1 h2 h3, of "''curl''" False False "''Linux''" "''x86_64''"] h2 h2' nm
    by (simp add: fresh_def)
qed

lemma detect_loop_fresh:
  assumes "detect_loop w ms self None = (self', lv)"
      and "env_manager self = None" and "\<not> env_manager_preinitialized self"
      and "env_manager self' = Some found"
  shows "lv = Some found \<and> detectable w found
       \<and> env_manager_preinitialized self' = which w (executable found)"
proof -
  from first_detectable[of ms w] show ?thesis
  proof
    assume "\<forall>m \<in> set ms. \<not> detectable w m"
    from detect_loop_none[OF this, of self None] assms show ?thesis by simp
  next
    assume "\<exists>i<length ms. detectable w (ms ! i) \<and> (\<forall>j<i. \<not> detectable w (ms ! j))"
    then obtain i where i: "i < length ms" "detectable w (ms ! i)"
      "\<forall>j<i. \<not> detectable w (ms ! j)" by blast
    from detect_loop_first[OF i, of self None] assms i(2) show ?thesis by auto
  qed
qed

text \<open>
  C3, as amended. When the loop, started on a new installer, has selected a manager and
  the caller asked for an installation, \<open>find_env_manager\<close> raises the installation
  error at once, with nothing run. The message, written out below, names the variant that
  was requested and the executable of the manager that was found, which is \<open>conda\<close> for
  miniconda and for anaconda. The text about the activation script, which names that
  executable and the path of the script, follows exactly when the installer is not
  preinitialised, and that is exactly when the executable is not on the search path, so
  that the manager was found through its activation script alone.
\<close>

theorem already_installed_error:
  assumes "detect_loop w (ENV_MANAGER_INFO w) (Installer f d v k a) None = (self', lv)"
      and "env_manager self' = Some found"
      and "message = [NL] @ ''Requested installation of `'' @ requested @ ''` but `''
                       @ executable found @ ''` was already found on''
                     @ [NL] @ ''the system.'' @ [NL]"
      and "remedy = [NL, NL] @ ''`'' @ executable found
                      @ '' is not present in $PATH, but an activation script exists at''
                    @ [NL] @ (case activation_script found of None \<Rightarrow> ''None'' | Some p \<Rightarrow> p)
                      @ ''. Follow the '' @ executable found
                      @ '' instructions for initializing your''
                    @ [NL] @ ''shell, then restart your terminal session.'' @ [NL]"
  shows "find_env_manager w (Installer f d v k a) (Some requested) s =
           Raise (SystemExit
                    (if env_manager_preinitialized self' then message else message @ remedy)
                    1) s
       \<and> contains message requested \<and> contains message (executable found)
       \<and> env_manager_preinitialized self' = which w (executable found)
       \<and> (\<not> env_manager_preinitialized self' \<longrightarrow>
            (\<exists>p. activation_script found = Some p \<and> path_exists w p \<and> contains remedy p))
       \<and> contains remedy (executable found)"
proof -
  have fr: "env_manager (Installer f d v k a) = None"
    "\<not> env_manager_preinitialized (Installer f d v k a)"
    by (simp_all add: Installer_def)
  from detect_loop_fresh[OF assms(1) fr assms(2)]
  have lv: "lv = Some found" and det: "detectable w found"
    and pre: "env_manager_preinitialized self' = which w (executable found)" by auto
  have m1: "RAILInstallationError
              (ERROR_ENV_MANAGER_ALREADY_INSTALLED requested (executable found)) 1
            = SystemExit message 1"
    unfolding assms(3)
    by (simp add: RAILInstallationError_def ERROR_ENV_MANAGER_ALREADY_INSTALLED_def
        endswith_def)
  have m2: "RAILInstallationError
              (ERROR_ENV_MANAGER_ALREADY_INSTALLED requested (executable found)
                 @ ERROR_ENV_MANAGER_EXISTS_WITHOUT_PATH (executable found)
                     (str_of_path (activation_script found))) 1
            = SystemExit (message @ remedy) 1"
    unfolding assms(3,4)
    by (simp add: RAILInstallationError_def ERROR_ENV_MANAGER_ALREADY_INSTALLED_def
        ERROR_ENV_MANAGER_EXISTS_WITHOUT_PATH_def str_of_path_def endswith_def)
  have 1: "find_env_manager w (Installer f d v k a) (Some requested) s =
           Raise (SystemExit
                    (if env_manager_preinitialized self' then message else message @ remedy)
                    1) s"
    using assms(1,2) lv m1 m2 by (simp add: find_env_manager_def Let_def)
  have 2: "contains message requested"
    unfolding assms(3)
    using contains_append[of "[NL] @ ''Requested installation of `''" requested
            "''` but `'' @ executable found @ ''` was already found on''
                     @ [NL] @ ''the system.'' @ [NL]"]
    by simp
  have 3: "contains message (executable found)"
    unfolding assms(3)
    using contains_append[of "[NL] @ ''Requested installation of `'' @ requested @ ''` but `''"
            "executable found" "''` was already found on'' @ [NL] @ ''the system.'' @ [NL]"]
    by simp
  have 4: "\<not> env_manager_preinitialized self' \<longrightarrow>
            (\<exists>p. activation_script found = Some p \<and> path_exists w p \<and> contains remedy p)"
  proof
    assume "\<not> env_manager_preinitialized self'"
    with det pre obtain p where p: "activation_script found = Some p" "path_exists w p"
      by (auto simp: detectable_def split: option.splits)
    have "contains remedy p"
      unfolding assms(4) p(1)
      using contains_append[of "[NL, NL] @ ''`'' @ executable found
                      @ '' is not present in $PATH, but an activation script exists at''
                    @ [NL]" p "''. Follow the '' @ executable found
                      @ '' instructions for initializing your''
                    @ [NL] @ ''shell, then restart your terminal session.'' @ [NL]"]
      by simp
    with p show "\<exists>p. activation_script found = Some p \<and> path_exists w p \<and> contains remedy p"
      by blast
  qed
  have 5: "contains remedy (executable found)"
    unfolding assms(4)
    using contains_append[of "[NL, NL] @ ''`''" "executable found"
            "'' is not present in $PATH, but an activation script exists at''
                    @ [NL] @ (case activation_script found of None \<Rightarrow> ''None'' | Some p \<Rightarrow> p)
                      @ ''. Follow the '' @ executable found
                      @ '' instructions for initializing your''
                    @ [NL] @ ''shell, then restart your terminal session.'' @ [NL]"]
    by simp
  from 1 2 3 pre 4 5 show ?thesis by blast
qed

text \<open>
  With an old miniconda on the search path, asking for mamba fails and names \<open>mamba\<close>
  and \<open>conda\<close>; with a miniforge on disk only, asking for miniconda fails, names
  \<open>miniconda\<close> and \<open>mamba\<close>, and adds the text about the activation script.
\<close>

theorem already_installed_error_witness:
  "find_env_manager old_miniconda_world fresh (Some ''mamba'') io0 =
     Raise (SystemExit
              ([NL] @ ''Requested installation of `mamba` but `conda` was already found on''
               @ [NL] @ ''the system.'' @ [NL]) 1) io0
   \<and> find_env_manager script_world fresh (Some ''miniconda'') io0 =
     Raise (SystemExit
              ([NL] @ ''Requested installation of `miniconda` but `mamba` was already found on''
               @ [NL] @ ''the system.'' @ [NL]
               @ [NL, NL] @ ''`mamba is not present in $PATH, but an activation script exists at''
               @ [NL] @ ''/home/u/miniforge3/bin/activate. Follow the mamba instructions for initializing your''
               @ [NL] @ ''shell, then restart your terminal session.'' @ [NL]) 1) io0"
proof -
  have d1: "detect_loop old_miniconda_world (ENV_MANAGER_INFO old_miniconda_world)
              (Installer ''curl'' False False ''Linux'' ''x86_64'') None =
            ((Installer ''curl'' False False ''Linux'' ''x86_64'')
               \<lparr>env_manager := Some (ENV_MANAGER_INFO old_miniconda_world ! 2),
                env_manager_preinitialized := True\<rparr>,
             Some (ENV_MANAGER_INFO old_miniconda_world ! 2))"
    by (simp add: ENV_MANAGER_INFO_def EnvironmentManager_def old_miniconda_world_def
        example_world_def Installer_def expanduser_home_u activate_home_u)
  have d2: "detect_loop script_world (ENV_MANAGER_INFO script_world)
              (Installer ''curl'' False False ''Linux'' ''x86_64'') None =
            ((Installer ''curl'' False False ''Linux'' ''x86_64'')
               \<lparr>env_manager := Some (ENV_MANAGER_INFO script_world ! 1)\<rparr>,
             Some (ENV_MANAGER_INFO script_world ! 1))"
    by (simp add: ENV_MANAGER_INFO_def EnvironmentManager_def script_world_def
        example_world_def Installer_def expanduser_home_u activate_home_u)
  have e1: "executable (ENV_MANAGER_INFO old_miniconda_world ! 2) = ''conda''"
    by (simp add: ENV_MANAGER_INFO_def EnvironmentManager_def)
  have e2: "executable (ENV_MANAGER_INFO script_world ! 1) = ''mamba''"
    "activation_script (ENV_MANAGER_INFO script_world ! 1)
       = Some ''/home/u/miniforge3/bin/activate''"
    by (simp_all add: ENV_MANAGER_INFO_def EnvironmentManager_def
        expanduser_home_u activate_home_u script_world_def example_world_def)
  show ?thesis
    using already_installed_error[OF d1 _ refl refl,
            of "ENV_MANAGER_INFO old_miniconda_world ! 2" "''mamba''" io0]
          already_installed_error[OF d2 _ refl refl,
            of "ENV_MANAGER_INFO script_world ! 1" "''miniconda''" io0]
          e1 e2
    by (simp add: fresh_def Installer_def)
qed

text \<open>
  C3 as stated fails in the name of the manager that is present: with an old miniconda
  on the search path, the loop selects the variant \<open>miniconda\<close>, and the message names
  \<open>conda\<close>, its executable; the name of the variant is nowhere in it.
\<close>

theorem already_installed_names_executable_counterexample:
  "map_option name
     (env_manager (fst (detect_loop old_miniconda_world (ENV_MANAGER_INFO old_miniconda_world)
                          fresh None)))
     = Some ''miniconda''
   \<and> find_env_manager old_miniconda_world fresh (Some ''mamba'') io0 =
     Raise (SystemExit
              ([NL] @ ''Requested installation of `mamba` but `conda` was already found on''
               @ [NL] @ ''the system.'' @ [NL]) 1) io0
   \<and> \<not> contains ([NL] @ ''Requested installation of `mamba` but `conda` was already found on''
                    @ [NL] @ ''the system.'' @ [NL]) ''miniconda''"
  by (simp add: find_env_manager_def ENV_MANAGER_INFO_def EnvironmentManager_def
      old_miniconda_world_def example_world_def fresh_def Installer_def
      expanduser_home_u activate_home_u io0_def RAILInstallationError_def
      ERROR_ENV_MANAGER_ALREADY_INSTALLED_def endswith_def)

subsection \<open>Checking the version\<close>

lemma tuple_lt_prefix: "zs \<noteq> [] \<Longrightarrow> tuple_lt xs (xs @ zs)"
  by (induction xs) (auto simp: neq_Nil_conv)

lemma tuple_lt_irrefl: "\<not> tuple_lt xs xs"
  by (induction xs) auto

text \<open>\<open>tuple_lt\<close> is the comparison field by field: the two tuples agree on their first
  \<open>n\<close> fields, and then the left one ends or has the smaller number.\<close>

lemma tuple_lt_iff:
  "tuple_lt xs ys \<longleftrightarrow>
     (\<exists>n. n \<le> length xs \<and> n < length ys \<and> take n xs = take n ys
          \<and> (n = length xs \<or> xs ! n < ys ! n))"
proof (induction xs ys rule: tuple_lt.induct)
  case 1
  then show ?case by simp
next
  case (2 y ys)
  then show ?case by auto
next
  case (3 x xs)
  then show ?case by simp
next
  case (4 x xs y ys)
  show ?case
  proof (cases "x = y")
    case True
    have "(\<exists>n. n \<le> length (x # xs) \<and> n < length (y # ys) \<and> take n (x # xs) = take n (y # ys)
          \<and> (n = length (x # xs) \<or> (x # xs) ! n < (y # ys) ! n))
       \<longleftrightarrow> (\<exists>n. n \<le> length xs \<and> n < length ys \<and> take n xs = take n ys
          \<and> (n = length xs \<or> xs ! n < ys ! n))" (is "?L \<longleftrightarrow> ?R")
    proof
      assume ?L
      then obtain n where n: "n \<le> length (x # xs)" "n < length (y # ys)"
        "take n (x # xs) = take n (y # ys)"
        "n = length (x # xs) \<or> (x # xs) ! n < (y # ys) ! n" by blast
      show ?R
      proof (cases n)
        case 0
        with n True show ?thesis by simp
      next
        case (Suc m)
        with n show ?thesis by (intro exI[of _ m]) auto
      qed
    next
      assume ?R
      then obtain n where "n \<le> length xs" "n < length ys" "take n xs = take n ys"
        "n = length xs \<or> xs ! n < ys ! n" by blast
      with True show ?L by (intro exI[of _ "Suc n"]) auto
    qed
    with 4 True show ?thesis by simp
  next
    case False
    have "(\<exists>n. n \<le> length (x # xs) \<and> n < length (y # ys) \<and> take n (x # xs) = take n (y # ys)
          \<and> (n = length (x # xs) \<or> (x # xs) ! n < (y # ys) ! n)) \<longleftrightarrow> x < y" (is "?L \<longleftrightarrow> _")
    proof
      assume ?L
      then obtain n where n: "n \<le> length (x # xs)" "n < length (y # ys)"
        "take n (x # xs) = take n (y # ys)"
        "n = length (x # xs) \<or> (x # xs) ! n < (y # ys) ! n" by blast
      show "x < y"
      proof (cases n)
        case 0
        with n show ?thesis by simp
      next
        case (Suc m)
        with n False show ?thesis by simp
      qed
    next
      assume "x < y"
      then show ?L by (intro exI[of _ 0]) simp
    qed
    with False show ?thesis by simp
  qed
qed

text \<open>When the version is really asked for and the command answers, the check is the
  comparison of the version taken from the output with the required one.\<close>

lemma check_env_manager_version_real:
  assumes "env_manager self = Some m"
      and "version_rule (executable m) = Some (version_cmd, output_to_version, required)"
      and "\<not> (dry_run self \<and> \<not> env_manager_preinitialized self)"
      and "run_env_manager_cmd w self version_cmd False True s = Return version_result s'"
      and "stdout version_result = Some out"
      and "output_to_version (strip out) = Inr present"
  shows "check_env_manager_version w self s =
           compare_versions (executable m) present required s'"
  using assms by (auto simp: check_env_manager_version_def Let_def)

lemma after_last_space_append:
  assumes "CHR '' '' \<notin> set present"
  shows "after_last_space (pre @ CHR '' '' # present) = Inr present"
proof -
  have "takeWhile (\<lambda>c. c \<noteq> CHR '' '') (rev present @ CHR '' '' # rev pre)
          = rev present @ takeWhile (\<lambda>c. c \<noteq> CHR '' '') (CHR '' '' # rev pre)"
    by (rule takeWhile_append2) (use assms in auto)
  then show ?thesis
    by (simp add: after_last_space_def)
qed

text \<open>The out-of-date error, letter by letter.\<close>

lemma out_of_date_message:
  "RAILInstallationError (ERROR_ENV_MANAGER_OUT_OF_DATE exe present required) c =
     SystemExit ([NL] @ ''The installed version of `'' @ exe @ ''` ('' @ present
                   @ '') is out of date, at least '' @ required @ '' is''
                 @ [NL] @ ''required. Please manually upgrade or remove it.'' @ [NL]) c"
  by (simp add: RAILInstallationError_def ERROR_ENV_MANAGER_OUT_OF_DATE_def endswith_def)

text \<open>
  C2. Take a manager of the registry, whose executable is conda, mamba or micromamba, and
  let the version be really asked for. The version command is \<open>conda --version\<close>, and
  \<open>micromamba --version\<close> for micromamba; the present version is what follows the last
  blank of the trimmed output, and the whole trimmed output for micromamba; the required
  version is \<open>23.5.0\<close>, and \<open>1.5.8\<close> for micromamba. Then the check raises the
  out-of-date error, with the message written out below, exactly when both strings split
  at the dots into integers and the tuple of the present version is smaller field by
  field: the two tuples agree on their first \<open>n\<close> fields and then the present one ends or
  has the smaller number. The message holds the present and the required version. Equal
  tuples pass. The fields are compared as numbers: \<open>2.10.0\<close> is above \<open>2.9.9\<close>.
\<close>

theorem version_check_fieldwise:
  assumes "env_manager self = Some m"
      and "executable m = ''conda'' \<or> executable m = ''mamba'' \<or> executable m = ''micromamba''"
      and "\<not> (dry_run self \<and> \<not> env_manager_preinitialized self)"
      and "run_env_manager_cmd w self
             (if executable m = ''micromamba'' then ''micromamba --version''
              else ''conda --version'') False True s = Return version_result s'"
      and "stdout version_result = Some out"
      and "if executable m = ''micromamba'' then present = strip out
           else strip out = pre @ '' '' @ present \<and> CHR '' '' \<notin> set present"
      and "required = (if executable m = ''micromamba'' then ''1.5.8'' else ''23.5.0'')"
      and "message = [NL] @ ''The installed version of `'' @ executable m @ ''` ('' @ present
                       @ '') is out of date, at least '' @ required @ '' is''
                     @ [NL] @ ''required. Please manually upgrade or remove it.'' @ [NL]"
  shows "((check_env_manager_version w self s = Raise (SystemExit message 1) s')
          \<longleftrightarrow> (\<exists>p r n. version_string_to_tuple present = Some p
                      \<and> version_string_to_tuple required = Some r
                      \<and> n \<le> length p \<and> n < length r \<and> take n p = take n r
                      \<and> (n = length p \<or> p ! n < r ! n)))
       \<and> contains message present \<and> contains message required
       \<and> (version_string_to_tuple present = version_string_to_tuple required
            \<and> version_string_to_tuple required \<noteq> None
          \<longrightarrow> check_env_manager_version w self s = Return () s')
       \<and> version_string_to_tuple ''2.10.0'' = Some [2, 10, 0]
       \<and> version_string_to_tuple ''2.9.9'' = Some [2, 9, 9]
       \<and> tuple_lt [2, 9, 9] [2, 10, 0] \<and> \<not> tuple_lt [2, 10, 0] [2, 9, 9]"
proof -
  obtain version_cmd output_to_version where
    rule: "version_rule (executable m) = Some (version_cmd, output_to_version, required)"
    and cmd: "version_cmd = (if executable m = ''micromamba'' then ''micromamba --version''
                             else ''conda --version'')"
    and ext: "output_to_version (strip out) = Inr present"
    using assms(2,6,7)
    by (auto simp: version_rule_def after_last_space_append split: if_splits)
  have c: "check_env_manager_version w self s =
             compare_versions (executable m) present required s'"
    using check_env_manager_version_real[OF assms(1) rule assms(3) _ assms(5) ext] assms(4) cmd
    by simp
  have msg: "RAILInstallationError
               (ERROR_ENV_MANAGER_OUT_OF_DATE (executable m) present required) 1
             = SystemExit message 1"
    unfolding assms(8) by (rule out_of_date_message)
  have 1: "(check_env_manager_version w self s = Raise (SystemExit message 1) s')
          \<longleftrightarrow> (\<exists>p r. version_string_to_tuple present = Some p
                      \<and> version_string_to_tuple required = Some r \<and> tuple_lt p r)"
    unfolding c
    by (auto simp: compare_versions_def msg split: option.splits)
  have 2: "version_string_to_tuple present = version_string_to_tuple required
            \<and> version_string_to_tuple required \<noteq> None
          \<longrightarrow> check_env_manager_version w self s = Return () s'"
    unfolding c
    by (auto simp: compare_versions_def tuple_lt_irrefl split: option.splits)
  have 3: "version_string_to_tuple ''2.10.0'' = Some [2, 10, 0]"
    "version_string_to_tuple ''2.9.9'' = Some [2, 9, 9]"
    by (simp_all add: version_string_to_tuple_def split_str_def py_int_def int_space_def
        is_digit_def digit_value_def)
  have 4: "tuple_lt [2, 9, 9] [2, 10, 0]" "\<not> tuple_lt [2, 10, 0] [2, 9, 9]"
    by simp_all
  have 5: "contains message present"
    unfolding assms(8)
    using contains_append[of "[NL] @ ''The installed version of `'' @ executable m @ ''` (''"
            present "'') is out of date, at least '' @ required @ '' is''
                     @ [NL] @ ''required. Please manually upgrade or remove it.'' @ [NL]"]
    by simp
  have 6: "contains message required"
    unfolding assms(8)
    using contains_append[of "[NL] @ ''The installed version of `'' @ executable m @ ''` (''
            @ present @ '') is out of date, at least ''"
            required "'' is'' @ [NL] @ ''required. Please manually upgrade or remove it.''
                     @ [NL]"]
    by simp
  from 1 2 3 4 5 6 show ?thesis
    by (simp only: tuple_lt_iff) blast
qed

text \<open>
  An old miniconda: \<open>4.0.0\<close> is below \<open>23.5.0\<close> already in the first field, although
  the string \<open>4.0.0\<close> sorts after the string \<open>23.5.0\<close>, and the error says so. A
  micromamba that reports just \<open>1.5.8\<close> passes.
\<close>

theorem version_check_fieldwise_witness:
  "check_env_manager_version old_miniconda_world
     (fresh\<lparr>env_manager := Some (ENV_MANAGER_INFO old_miniconda_world ! 2),
            env_manager_preinitialized := True\<rparr>) io0
   = Raise (SystemExit
              ([NL] @ ''The installed version of `conda` (4.0.0) is out of date, at least 23.5.0 is''
               @ [NL] @ ''required. Please manually upgrade or remove it.'' @ [NL]) 1)
       \<lparr>events = [Cmd ''. /home/u/miniconda3/bin/activate && conda --version''], consumed = 0\<rparr>
   \<and> version_string_to_tuple ''4.0.0'' = Some [4, 0, 0]
   \<and> version_string_to_tuple ''23.5.0'' = Some [23, 5, 0]
   \<and> \<not> str_le ''4.0.0'' ''23.5.0''
   \<and> check_env_manager_version micromamba_world
       (fresh\<lparr>env_manager := Some (ENV_MANAGER_INFO micromamba_world ! 0),
              env_manager_preinitialized := True\<rparr>) io0
     = Return () \<lparr>events = [Cmd ''micromamba --version''], consumed = 0\<rparr>"
proof -
  let ?self = "fresh\<lparr>env_manager := Some (ENV_MANAGER_INFO old_miniconda_world ! 2),
                     env_manager_preinitialized := True\<rparr>"
  let ?m = "ENV_MANAGER_INFO old_miniconda_world ! 2"
  let ?s' = "\<lparr>events = [Cmd ''. /home/u/miniconda3/bin/activate && conda --version''],
              consumed = 0\<rparr>"
  have e: "executable ?m = ''conda''"
    by (simp add: ENV_MANAGER_INFO_def EnvironmentManager_def)
  have a1: "env_manager ?self = Some ?m" by simp
  have a2: "executable ?m = ''conda'' \<or> executable ?m = ''mamba''
            \<or> executable ?m = ''micromamba''"
    by (simp add: e)
  have a3: "\<not> (dry_run ?self \<and> \<not> env_manager_preinitialized ?self)" by simp
  have a4: "run_env_manager_cmd old_miniconda_world ?self
              (if executable ?m = ''micromamba'' then ''micromamba --version''
               else ''conda --version'') False True io0
              = Return (version_reply ''conda 4.0.0'') ?s'"
    by (simp add: e run_env_manager_cmd_def run_cmd_def ENV_MANAGER_INFO_def
        EnvironmentManager_def old_miniconda_world_def example_world_def version_reply_def
        expanduser_home_u activate_home_u io0_def)
  have a5: "stdout (version_reply ''conda 4.0.0'') = Some ''conda 4.0.0''"
    by (simp add: version_reply_def)
  have a6: "if executable ?m = ''micromamba'' then ''4.0.0'' = strip ''conda 4.0.0''
            else strip ''conda 4.0.0'' = ''conda'' @ '' '' @ ''4.0.0''
                 \<and> CHR '' '' \<notin> set ''4.0.0''"
    by (simp add: e strip_def is_space_def)
  have a7: "''23.5.0'' = (if executable ?m = ''micromamba'' then ''1.5.8'' else ''23.5.0'')"
    by (simp add: e)
  have t: "version_string_to_tuple ''4.0.0'' = Some [4, 0, 0]"
    "version_string_to_tuple ''23.5.0'' = Some [23, 5, 0]"
    "version_string_to_tuple ''1.5.8'' = Some [1, 5, 8]"
    by (simp_all add: version_string_to_tuple_def split_str_def py_int_def int_space_def
        is_digit_def digit_value_def)
  have lt: "\<exists>p r n. version_string_to_tuple ''4.0.0'' = Some p
                      \<and> version_string_to_tuple ''23.5.0'' = Some r
                      \<and> n \<le> length p \<and> n < length r \<and> take n p = take n r
                      \<and> (n = length p \<or> p ! n < r ! n)"
    by (rule exI[of _ "[4, 0, 0]"], rule exI[of _ "[23, 5, 0]"], rule exI[of _ 0])
       (simp add: t)
  have sl: "\<not> str_le ''4.0.0'' ''23.5.0''" by simp
  let ?self2 = "fresh\<lparr>env_manager := Some (ENV_MANAGER_INFO micromamba_world ! 0),
                      env_manager_preinitialized := True\<rparr>"
  let ?m2 = "ENV_MANAGER_INFO micromamba_world ! 0"
  have e2: "executable ?m2 = ''micromamba''"
    by (simp add: ENV_MANAGER_INFO_def EnvironmentManager_def)
  have b1: "env_manager ?self2 = Some ?m2" by simp
  have b2: "executable ?m2 = ''conda'' \<or> executable ?m2 = ''mamba''
            \<or> executable ?m2 = ''micromamba''"
    by (simp add: e2)
  have b3: "\<not> (dry_run ?self2 \<and> \<not> env_manager_preinitialized ?self2)" by simp
  have b4: "run_env_manager_cmd micromamba_world ?self2
              (if executable ?m2 = ''micromamba'' then ''micromamba --version''
               else ''conda --version'') False True io0
              = Return (version_reply ''1.5.8'')
                  \<lparr>events = [Cmd ''micromamba --version''], consumed = 0\<rparr>"
    by (simp add: e2 run_env_manager_cmd_def run_cmd_def ENV_MANAGER_INFO_def
        EnvironmentManager_def micromamba_world_def example_world_def version_reply_def
        io0_def)
  have b5: "stdout (version_reply ''1.5.8'') = Some ''1.5.8''"
    by (simp add: version_reply_def)
  have b6: "if executable ?m2 = ''micromamba'' then ''1.5.8'' = strip ''1.5.8''
            else strip ''1.5.8'' = [] @ '' '' @ ''1.5.8'' \<and> CHR '' '' \<notin> set ''1.5.8''"
    by (simp add: e2 strip_def is_space_def)
  have b7: "''1.5.8'' = (if executable ?m2 = ''micromamba'' then ''1.5.8'' else ''23.5.0'')"
    by (simp add: e2)
  show ?thesis
    using version_check_fieldwise[OF a1 a2 a3 a4 a5 a6 a7 refl]
          version_check_fieldwise[OF b1 b2 b3 b4 b5 b6 b7 refl] lt t sl
    by (simp add: e e2)
qed

text \<open>
  C9. When the tuple of the present version is a proper prefix of the tuple of the
  required one, as \<open>23.5\<close> is of \<open>23.5.0\<close>, the check takes the present version for
  older and raises the out-of-date error.
\<close>

theorem version_prefix_is_older:
  assumes "env_manager self = Some m"
      and "version_rule (executable m) = Some (version_cmd, output_to_version, required)"
      and "\<not> (dry_run self \<and> \<not> env_manager_preinitialized self)"
      and "run_env_manager_cmd w self version_cmd False True s = Return version_result s'"
      and "stdout version_result = Some out"
      and "output_to_version (strip out) = Inr present"
      and "version_string_to_tuple present = Some p"
      and "version_string_to_tuple required = Some (p @ rest)"
      and "rest \<noteq> []"
  shows "check_env_manager_version w self s =
           Raise (RAILInstallationError
                    (ERROR_ENV_MANAGER_OUT_OF_DATE (executable m) present required) 1) s'"
  using check_env_manager_version_real[OF assms(1-6)] assms(7-9)
  by (simp add: compare_versions_def tuple_lt_prefix)
theorem version_prefix_is_older_witness:
  "version_string_to_tuple ''23.5'' = Some [23, 5]
   \<and> version_string_to_tuple ''23.5.0'' = Some ([23, 5] @ [0])
   \<and> check_env_manager_version short_version_world
       (fresh\<lparr>env_manager := Some (ENV_MANAGER_INFO short_version_world ! 2),
              env_manager_preinitialized := True\<rparr>) io0
     = Raise (RAILInstallationError
                (ERROR_ENV_MANAGER_OUT_OF_DATE ''conda'' ''23.5'' ''23.5.0'') 1)
         \<lparr>events = [Cmd ''. /home/u/miniconda3/bin/activate && conda --version''],
            consumed = 0\<rparr>"
proof -
  let ?self = "fresh\<lparr>env_manager := Some (ENV_MANAGER_INFO short_version_world ! 2),
                     env_manager_preinitialized := True\<rparr>"
  let ?m = "ENV_MANAGER_INFO short_version_world ! 2"
  let ?s' = "\<lparr>events = [Cmd ''. /home/u/miniconda3/bin/activate && conda --version''],
              consumed = 0\<rparr>"
  have e: "executable ?m = ''conda''"
    by (simp add: ENV_MANAGER_INFO_def EnvironmentManager_def)
  have a1: "env_manager ?self = Some ?m" by simp
  have a2: "version_rule (executable ?m) = Some (''conda --version'', after_last_space, ''23.5.0'')"
    by (simp add: e version_rule_def)
  have a3: "\<not> (dry_run ?self \<and> \<not> env_manager_preinitialized ?self)" by simp
  have a4: "run_env_manager_cmd short_version_world ?self ''conda --version'' False True io0
              = Return (version_reply ''conda 23.5'') ?s'"
    by (simp add: run_env_manager_cmd_def run_cmd_def ENV_MANAGER_INFO_def
        EnvironmentManager_def short_version_world_def example_world_def version_reply_def
        expanduser_home_u activate_home_u io0_def)
  have a5: "stdout (version_reply ''conda 23.5'') = Some ''conda 23.5''"
    by (simp add: version_reply_def)
  have a6: "after_last_space (strip ''conda 23.5'') = Inr ''23.5''"
    by (simp add: after_last_space_def strip_def is_space_def)
  have a7: "version_string_to_tuple ''23.5'' = Some [23, 5]"
    by (simp add: version_string_to_tuple_def split_str_def py_int_def int_space_def
        is_space_def is_digit_def digit_value_def)
  have a8: "version_string_to_tuple ''23.5.0'' = Some ([23, 5] @ [0])"
    by (simp add: version_string_to_tuple_def split_str_def py_int_def int_space_def
        is_space_def is_digit_def digit_value_def)
  have a9: "[0::int] \<noteq> []" by simp
  show ?thesis
    using version_prefix_is_older[OF a1 a2 a3 a4 a5 a6 a7 a8 a9] a7 a8
    by (simp add: e)
qed

subsection \<open>Interactive input\<close>

text \<open>What the loop returns has passed both tests of the loop body.\<close>

lemma ask_loop_accepts:
  "ask_loop w options allow_any validator s = Some y \<Longrightarrow>
   \<forall>result s'. y = Return result s' \<longrightarrow>
     default_validation options allow_any result \<and> extra_validation validator result"
proof (erule ask_loop.raw_induct[rotated])
  fix ask w options allow_any validator s y
  assume IH: "\<And>w options allow_any validator s y.
      ask w options allow_any validator s = Some y \<Longrightarrow>
      \<forall>result s'. y = Return result s' \<longrightarrow>
        default_validation options allow_any result \<and> extra_validation validator result"
    and step: "(case stdin w (consumed s) of
          None \<Rightarrow> Some (Raise EOFError s)
        | Some result \<Rightarrow>
            if \<not> default_validation options allow_any result
               \<or> \<not> extra_validation validator result
            then ask w options allow_any validator (s\<lparr>consumed := consumed s + 1\<rparr>)
            else Some (Return result (s\<lparr>consumed := consumed s + 1\<rparr>))) = Some y"
  show "\<forall>result s'. y = Return result s' \<longrightarrow>
          default_validation options allow_any result \<and> extra_validation validator result"
  proof (cases "stdin w (consumed s)")
    case None
    with step show ?thesis by auto
  next
    case (Some line)
    show ?thesis
    proof (cases "\<not> default_validation options allow_any line
                  \<or> \<not> extra_validation validator line")
      case True
      with Some step
      have "ask w options allow_any validator (s\<lparr>consumed := consumed s + 1\<rparr>) = Some y"
        by simp
      from IH[OF this] show ?thesis .
    next
      case False
      with Some step show ?thesis by auto
    qed
  qed
qed

text \<open>When no line can pass the tests, the loop comes back only at the end of the input,
  with the \<open>EOFError\<close> of \<open>input()\<close>.\<close>

lemma ask_loop_rejects_all:
  "ask_loop w options allow_any validator s = Some y \<Longrightarrow>
   (\<forall>line. \<not> (default_validation options allow_any line
                \<and> extra_validation validator line)) \<longrightarrow>
   (\<exists>s'. y = Raise EOFError s') \<and> (\<exists>n \<ge> consumed s. stdin w n = None)"
proof (erule ask_loop.raw_induct[rotated])
  fix ask w options allow_any validator s y
  assume IH: "\<And>w options allow_any validator s y.
      ask w options allow_any validator s = Some y \<Longrightarrow>
      (\<forall>line. \<not> (default_validation options allow_any line
                   \<and> extra_validation validator line)) \<longrightarrow>
      (\<exists>s'. y = Raise EOFError s') \<and> (\<exists>n \<ge> consumed s. stdin w n = None)"
    and step: "(case stdin w (consumed s) of
          None \<Rightarrow> Some (Raise EOFError s)
        | Some result \<Rightarrow>
            if \<not> default_validation options allow_any result
               \<or> \<not> extra_validation validator result
            then ask w options allow_any validator (s\<lparr>consumed := consumed s + 1\<rparr>)
            else Some (Return result (s\<lparr>consumed := consumed s + 1\<rparr>))) = Some y"
  show "(\<forall>line. \<not> (default_validation options allow_any line
                   \<and> extra_validation validator line)) \<longrightarrow>
        (\<exists>s'. y = Raise EOFError s') \<and> (\<exists>n \<ge> consumed s. stdin w n = None)"
  proof
    assume rej: "\<forall>line. \<not> (default_validation options allow_any line
                             \<and> extra_validation validator line)"
    show "(\<exists>s'. y = Raise EOFError s') \<and> (\<exists>n \<ge> consumed s. stdin w n = None)"
    proof (cases "stdin w (consumed s)")
      case None
      with step show ?thesis by auto
    next
      case (Some line)
      with step rej
      have "ask w options allow_any validator (s\<lparr>consumed := consumed s + 1\<rparr>) = Some y"
        by auto
      from IH[OF this] rej
      have "(\<exists>s'. y = Raise EOFError s')
            \<and> (\<exists>n \<ge> consumed (s\<lparr>consumed := consumed s + 1\<rparr>). stdin w n = None)"
        by blast
      then obtain n where "\<exists>s'. y = Raise EOFError s'" "consumed s + 1 \<le> n" "stdin w n = None"
        by auto
      then show ?thesis
        by (intro conjI exI[of _ n]) auto
    qed
  qed
qed

text \<open>
  C6. A value that \<open>request_input\<close> returns is one of the options when \<open>allow_any\<close> is
  off, is not empty when \<open>allow_any\<close> is on, and satisfies the validator when there is
  one.
\<close>

theorem request_input_result_valid:
  assumes "request_input w prompt options allow_any validator s = Return result s'"
  shows "(\<not> allow_any \<longrightarrow> result \<in> set options)
       \<and> (allow_any \<longrightarrow> result \<noteq> [])
       \<and> (\<forall>v. validator = Some v \<longrightarrow> v result)"
proof -
  from assms have "ask_loop w options allow_any validator s = Some (Return result s')"
    by (auto simp: request_input_def split: if_splits option.splits)
  from ask_loop_accepts[OF this]
  have "default_validation options allow_any result" "extra_validation validator result"
    by auto
  then show ?thesis
    by (auto simp: default_validation_def extra_validation_def)
qed

text \<open>The operator gives an empty line, then a name that is taken, then a free one.\<close>

theorem request_input_result_valid_witness:
  "request_input name_world ''Name:'' [] True
     (Some (\<lambda>nm. check_env_name nm [''analysis''])) io0
     = Return ''rail'' \<lparr>events = [], consumed = 3\<rparr>
   \<and> ''rail'' \<noteq> [] \<and> check_env_name ''rail'' [''analysis'']"
proof -
  have r: "request_input name_world ''Name:'' [] True
             (Some (\<lambda>nm. check_env_name nm [''analysis''])) io0
           = Return ''rail'' \<lparr>events = [], consumed = 3\<rparr>"
    by (simp add: request_input_def ask_loop.simps name_world_def example_world_def io0_def
        default_validation_def extra_validation_def check_env_name_def)
  from request_input_result_valid[OF r] r show ?thesis by simp
qed

text \<open>
  C10. With \<open>allow_any\<close> off and no options, no line passes the test of the loop,
  whatever the validator is. So \<open>request_input\<close> never returns a value; on a terminal
  where the operator goes on typing, it never comes back at all. It can leave only by
  raising: at once when there is no terminal, or when the input ends. Hence a call that
  returns has \<open>allow_any\<close> on or has an option.
\<close>

theorem request_input_no_options:
  "(\<forall>line. \<not> default_validation [] False line)
   \<and> (\<forall>result s'. request_input w prompt [] False validator s \<noteq> Return result s')
   \<and> (isatty w \<and> (\<forall>n \<ge> consumed s. stdin w n \<noteq> None) \<longrightarrow>
        request_input w prompt [] False validator s = Diverge)
   \<and> (\<forall>result s'. request_input w prompt options allow_any validator s = Return result s'
        \<longrightarrow> allow_any \<or> options \<noteq> [])"
proof -
  have rej: "\<And>v. \<forall>line. \<not> (default_validation [] False line \<and> extra_validation v line)"
    by (simp add: default_validation_def)
  have 1: "\<forall>line. \<not> default_validation [] False line"
    by (simp add: default_validation_def)
  have 2: "\<And>v. \<forall>result s'. request_input w prompt [] False v s \<noteq> Return result s'"
  proof (intro allI notI)
    fix v result s'
    assume "request_input w prompt [] False v s = Return result s'"
    then have "ask_loop w [] False v s = Some (Return result s')"
      by (auto simp: request_input_def split: if_splits option.splits)
    from ask_loop_rejects_all[OF this] rej[of v] show False by auto
  qed
  have 3: "isatty w \<and> (\<forall>n \<ge> consumed s. stdin w n \<noteq> None) \<longrightarrow>
        request_input w prompt [] False validator s = Diverge"
  proof
    assume a: "isatty w \<and> (\<forall>n \<ge> consumed s. stdin w n \<noteq> None)"
    have "ask_loop w [] False validator s = None"
    proof (cases "ask_loop w [] False validator s")
      case None
      then show ?thesis .
    next
      case (Some y)
      from ask_loop_rejects_all[OF this] rej[of validator] a show ?thesis by blast
    qed
    with a show "request_input w prompt [] False validator s = Diverge"
      by (simp add: request_input_def)
  qed
  have 4: "\<forall>result s'. request_input w prompt options allow_any validator s = Return result s'
        \<longrightarrow> allow_any \<or> options \<noteq> []"
  proof (intro allI impI)
    fix result s'
    assume r: "request_input w prompt options allow_any validator s = Return result s'"
    show "allow_any \<or> options \<noteq> []"
    proof (rule ccontr)
      assume "\<not> (allow_any \<or> options \<noteq> [])"
      with r 2[of validator] show False by auto
    qed
  qed
  from 1 2[of validator] 3 4 show ?thesis by blast
qed

text \<open>An operator who types \<open>mamba\<close> for ever is never done when there are no options,
  and is done after one line when \<open>mamba\<close> is an option.\<close>

theorem request_input_no_options_witness:
  "isatty chatty_world \<and> stdin chatty_world 0 = Some ''mamba''
   \<and> stdin chatty_world 1000 = Some ''mamba''
   \<and> request_input chatty_world ''Which?'' [] False None io0 = Diverge
   \<and> request_input chatty_world ''Which?'' [''mamba'', ''miniconda''] False None io0
       = Return ''mamba'' \<lparr>events = [], consumed = 1\<rparr>
   \<and> [''mamba'', ''miniconda''] \<noteq> []"
proof -
  have h: "isatty chatty_world \<and> (\<forall>n \<ge> consumed io0. stdin chatty_world n \<noteq> None)"
    by (simp add: chatty_world_def bare_world_def example_world_def)
  have r: "request_input chatty_world ''Which?'' [''mamba'', ''miniconda''] False None io0
       = Return ''mamba'' \<lparr>events = [], consumed = 1\<rparr>"
    by (simp add: request_input_def ask_loop.simps chatty_world_def bare_world_def
        example_world_def io0_def default_validation_def extra_validation_def)
  have l: "stdin chatty_world 0 = Some ''mamba''" "stdin chatty_world 1000 = Some ''mamba''"
    by (simp_all add: chatty_world_def)
  from request_input_no_options[of chatty_world "''Which?''" None io0
         "[''mamba'', ''miniconda'']" False] h r l
  show ?thesis by simp
qed

subsection \<open>The version check in a dry run\<close>

lemma rail_error_head:
  "x \<noteq> NL \<Longrightarrow> \<exists>t. RAILInstallationError (x # rest) c = SystemExit (NL # x # t) c"
  by (simp add: RAILInstallationError_def Let_def)

lemma out_of_date_head:
  "\<exists>t. RAILInstallationError (ERROR_ENV_MANAGER_OUT_OF_DATE exe present required) c
         = SystemExit (NL # CHR ''T'' # t) c"
  by (simp add: RAILInstallationError_def ERROR_ENV_MANAGER_OUT_OF_DATE_def Let_def)

lemma run_cmd_error_message_head: "\<exists>t. run_cmd_error_message output = CHR ''C'' # t"
  by (simp add: run_cmd_error_message_def Let_def)

text \<open>No error of \<open>run_env_manager_cmd\<close> is the out-of-date error.\<close>

lemma run_env_manager_cmd_not_out_of_date:
  "run_env_manager_cmd w self cmd as_comment capture_output s
     \<noteq> Raise (RAILInstallationError
                (ERROR_ENV_MANAGER_OUT_OF_DATE exe present required) c) s'"
proof
  assume a: "run_env_manager_cmd w self cmd as_comment capture_output s
     = Raise (RAILInstallationError
                (ERROR_ENV_MANAGER_OUT_OF_DATE exe present required) c) s'"
  obtain t where t: "RAILInstallationError
                (ERROR_ENV_MANAGER_OUT_OF_DATE exe present required) c
         = SystemExit (NL # CHR ''T'' # t) c"
    using out_of_date_head by blast
  have s: "\<exists>t. RAILInstallationError
      ''Something went wrong finding/activating the Python virtual environment manager.'' 1
      = SystemExit (NL # CHR ''S'' # t) 1"
    by (rule rail_error_head) simp
  have r: "\<And>outp n. \<exists>t. RAILInstallationError (run_cmd_error_message outp) n
      = SystemExit (NL # CHR ''C'' # t) n"
  proof -
    fix outp n
    obtain u where "run_cmd_error_message outp = CHR ''C'' # u"
      using run_cmd_error_message_head by blast
    then show "\<exists>t. RAILInstallationError (run_cmd_error_message outp) n
      = SystemExit (NL # CHR ''C'' # t) n"
      using rail_error_head[of "CHR ''C''" u n] by simp
  qed
  have rc: "\<And>cmd'. run_cmd w cmd' as_comment capture_output s
       \<noteq> Raise (SystemExit (NL # CHR ''T'' # t) c) s'"
  proof
    fix cmd'
    assume b: "run_cmd w cmd' as_comment capture_output s
       = Raise (SystemExit (NL # CHR ''T'' # t) c) s'"
    let ?out = "subprocess_run w (events s) (if as_comment then ''# '' @ cmd' else cmd')
                  capture_output"
    from r[of ?out "returncode ?out"] obtain u where
      "RAILInstallationError (run_cmd_error_message ?out) (returncode ?out)
         = SystemExit (NL # CHR ''C'' # u) (returncode ?out)" by blast
    with b show False
      by (auto simp: run_cmd_def Let_def split: if_splits)
  qed
  from a t s rc show False
    by (auto simp: run_env_manager_cmd_def split: option.splits if_splits)
qed

text \<open>
  C8, as amended. In a dry run with an installer that is not preinitialised, the version
  command is issued as a comment only, and the check returns as soon as that is done: it
  compares nothing and never raises the out-of-date error. In every other case, that is
  without dry run or with the executable found on the search path, the real command is run
  and the version in its output is compared.
\<close>

theorem version_check_skipped_iff_fake:
  assumes "env_manager self = Some m"
      and "version_rule (executable m) = Some (version_cmd, output_to_version, required)"
  shows "(dry_run self \<and> \<not> env_manager_preinitialized self \<longrightarrow>
            check_env_manager_version w self s =
              bind (run_env_manager_cmd w self version_cmd True True s) (\<lambda>_ s. Return () s)
            \<and> (\<forall>exe present req c s'.
                 check_env_manager_version w self s \<noteq>
                   Raise (RAILInstallationError
                            (ERROR_ENV_MANAGER_OUT_OF_DATE exe present req) c) s'))
       \<and> (\<not> (dry_run self \<and> \<not> env_manager_preinitialized self) \<longrightarrow>
            check_env_manager_version w self s =
              bind (run_env_manager_cmd w self version_cmd False True s)
                (\<lambda>version_result s.
                   case stdout version_result of
                     None \<Rightarrow> Raise AttributeError s
                   | Some out \<Rightarrow>
                       (case output_to_version (strip out) of
                          Inl e \<Rightarrow> Raise e s
                        | Inr present \<Rightarrow>
                            compare_versions (executable m) present required s)))"
proof (intro conjI impI)
  assume f: "dry_run self \<and> \<not> env_manager_preinitialized self"
  with assms show c: "check_env_manager_version w self s =
              bind (run_env_manager_cmd w self version_cmd True True s) (\<lambda>_ s. Return () s)"
    by (simp add: check_env_manager_version_def Let_def)
  show "\<forall>exe present req c s'.
          check_env_manager_version w self s \<noteq>
            Raise (RAILInstallationError (ERROR_ENV_MANAGER_OUT_OF_DATE exe present req) c) s'"
  proof (intro allI notI)
    fix exe present req c' s'
    assume "check_env_manager_version w self s =
            Raise (RAILInstallationError (ERROR_ENV_MANAGER_OUT_OF_DATE exe present req) c') s'"
    with c have "run_env_manager_cmd w self version_cmd True True s =
            Raise (RAILInstallationError (ERROR_ENV_MANAGER_OUT_OF_DATE exe present req) c') s'"
      by (cases "run_env_manager_cmd w self version_cmd True True s") auto
    with run_env_manager_cmd_not_out_of_date show False by blast
  qed
next
  assume "\<not> (dry_run self \<and> \<not> env_manager_preinitialized self)"
  with assms show "check_env_manager_version w self s =
              bind (run_env_manager_cmd w self version_cmd False True s)
                (\<lambda>version_result s.
                   case stdout version_result of
                     None \<Rightarrow> Raise AttributeError s
                   | Some out \<Rightarrow>
                       (case output_to_version (strip out) of
                          Inl e \<Rightarrow> Raise e s
                        | Inr present \<Rightarrow>
                            compare_versions (executable m) present required s))"
    by (auto simp: check_env_manager_version_def Let_def)
qed

text \<open>In a dry run, the old miniforge that is on disk only passes unseen, and the old
  conda that is on the search path is found out of date.\<close>

theorem version_check_skipped_iff_fake_witness:
  "check_env_manager_version script_world
     (dry\<lparr>env_manager := Some (ENV_MANAGER_INFO script_world ! 1)\<rparr>) io0
   = Return ()
       \<lparr>events = [Cmd ''# . /home/u/miniforge3/bin/activate && conda --version''],
          consumed = 0\<rparr>
   \<and> check_env_manager_version old_conda_world
     (dry\<lparr>env_manager := Some (ENV_MANAGER_INFO old_conda_world ! 2),
          env_manager_preinitialized := True\<rparr>) io0
   = Raise (RAILInstallationError
              (ERROR_ENV_MANAGER_OUT_OF_DATE ''conda'' ''4.0.0'' ''23.5.0'') 1)
       \<lparr>events = [Cmd ''. /home/u/miniconda3/bin/activate && conda --version''],
          consumed = 0\<rparr>"
proof -
  let ?s1 = "dry\<lparr>env_manager := Some (ENV_MANAGER_INFO script_world ! 1)\<rparr>"
  let ?s2 = "dry\<lparr>env_manager := Some (ENV_MANAGER_INFO old_conda_world ! 2),
                 env_manager_preinitialized := True\<rparr>"
  have a1: "env_manager ?s1 = Some (ENV_MANAGER_INFO script_world ! 1)" by simp
  have b1: "version_rule (executable (ENV_MANAGER_INFO script_world ! 1))
              = Some (''conda --version'', after_last_space, ''23.5.0'')"
    by (simp add: ENV_MANAGER_INFO_def EnvironmentManager_def version_rule_def)
  have c1: "dry_run ?s1 \<and> \<not> env_manager_preinitialized ?s1"
    by (simp add: dry_def Installer_def)
  have r1: "run_env_manager_cmd script_world ?s1 ''conda --version'' True True io0
              = Return (version_reply ''conda 4.0.0'')
                  \<lparr>events = [Cmd ''# . /home/u/miniforge3/bin/activate && conda --version''],
                     consumed = 0\<rparr>"
    by (simp add: run_env_manager_cmd_def run_cmd_def ENV_MANAGER_INFO_def
        EnvironmentManager_def script_world_def example_world_def version_reply_def
        expanduser_home_u activate_home_u io0_def)
  have a2: "env_manager ?s2 = Some (ENV_MANAGER_INFO old_conda_world ! 2)" by simp
  have e2: "executable (ENV_MANAGER_INFO old_conda_world ! 2) = ''conda''"
    by (simp add: ENV_MANAGER_INFO_def EnvironmentManager_def)
  have b2: "version_rule (executable (ENV_MANAGER_INFO old_conda_world ! 2))
              = Some (''conda --version'', after_last_space, ''23.5.0'')"
    by (simp add: e2 version_rule_def)
  have c2: "\<not> (dry_run ?s2 \<and> \<not> env_manager_preinitialized ?s2)" by simp
  have r2: "run_env_manager_cmd old_conda_world ?s2 ''conda --version'' False True io0
              = Return (version_reply ''conda 4.0.0'')
                  \<lparr>events = [Cmd ''. /home/u/miniconda3/bin/activate && conda --version''],
                     consumed = 0\<rparr>"
    by (simp add: run_env_manager_cmd_def run_cmd_def ENV_MANAGER_INFO_def
        EnvironmentManager_def old_conda_world_def example_world_def version_reply_def
        expanduser_home_u activate_home_u io0_def)
  have v: "after_last_space (strip ''conda 4.0.0'') = Inr ''4.0.0''"
    by (simp add: after_last_space_def strip_def is_space_def)
  have cmp: "compare_versions ''conda'' ''4.0.0'' ''23.5.0'' s
              = Raise (RAILInstallationError
                         (ERROR_ENV_MANAGER_OUT_OF_DATE ''conda'' ''4.0.0'' ''23.5.0'') 1) s" for s
    by (simp add: compare_versions_def version_string_to_tuple_def split_str_def py_int_def
        int_space_def is_space_def is_digit_def digit_value_def)
  show ?thesis
    using version_check_skipped_iff_fake[OF a1 b1, of script_world io0]
          version_check_skipped_iff_fake[OF a2 b2, of old_conda_world io0]
          c1 c2 r1 r2 v cmp
    by (simp add: e2 version_reply_def)
qed
text \<open>
  C8 as stated fails whichever way ``no manager was actually installed'' is read. An old
  miniforge is on disk and not on the search path: a real run finds it out of date, yet
  the dry run issues comments only and returns, so with a manager installed on the machine
  the version is not inspected. And with an old conda on the search path, the dry run
  installs nothing and still inspects the version and fails.
\<close>

theorem dry_run_version_check_counterexample:
  "path_exists script_world ''/home/u/miniforge3/bin/activate''
   \<and> find_env_manager script_world fresh None io0
     = Raise (RAILInstallationError
                (ERROR_ENV_MANAGER_OUT_OF_DATE ''mamba'' ''4.0.0'' ''23.5.0'') 1)
         \<lparr>events =
            [Cmd ''. /home/u/miniforge3/bin/activate && mamba shell init --shell bash'',
             Cmd ''. /home/u/miniforge3/bin/activate && conda --version''],
            consumed = 0\<rparr>
   \<and> find_env_manager script_world dry None io0
     = Return (dry\<lparr>env_manager := Some (ENV_MANAGER_INFO script_world ! 1)\<rparr>)
         \<lparr>events =
            [Cmd ''# . /home/u/miniforge3/bin/activate && mamba shell init --shell bash'',
             Cmd ''# . /home/u/miniforge3/bin/activate && conda --version''],
            consumed = 0\<rparr>
   \<and> find_env_manager old_conda_world dry None io0
     = Raise (RAILInstallationError
                (ERROR_ENV_MANAGER_OUT_OF_DATE ''conda'' ''4.0.0'' ''23.5.0'') 1)
         \<lparr>events =
            [Cmd ''# . /home/u/miniconda3/bin/activate && conda tos accept --override-channels --channel https://repo.anaconda.com/pkgs/main'',
             Cmd ''# . /home/u/miniconda3/bin/activate && conda tos accept --override-channels --channel https://repo.anaconda.com/pkgs/r'',
             Cmd ''. /home/u/miniconda3/bin/activate && conda --version''],
            consumed = 0\<rparr>"
proof -
  have v: "after_last_space (strip ''conda 4.0.0'') = Inr ''4.0.0''"
    by (simp add: after_last_space_def strip_def is_space_def)
  have cmp: "compare_versions exe ''4.0.0'' ''23.5.0'' s
              = Raise (RAILInstallationError
                         (ERROR_ENV_MANAGER_OUT_OF_DATE exe ''4.0.0'' ''23.5.0'') 1) s" for exe s
    by (simp add: compare_versions_def version_string_to_tuple_def split_str_def py_int_def
        int_space_def is_space_def is_digit_def digit_value_def)
  have sh: "stem ''/bin/bash'' = ''bash''"
    by (simp add: stem_def path_name_def path_parts_def split_str_def Let_def)
  have 1: "path_exists script_world ''/home/u/miniforge3/bin/activate''"
    by (simp add: script_world_def example_world_def)
  have 2: "find_env_manager script_world fresh None io0
     = Raise (RAILInstallationError
                (ERROR_ENV_MANAGER_OUT_OF_DATE ''mamba'' ''4.0.0'' ''23.5.0'') 1)
         \<lparr>events =
            [Cmd ''. /home/u/miniforge3/bin/activate && mamba shell init --shell bash'',
             Cmd ''. /home/u/miniforge3/bin/activate && conda --version''],
            consumed = 0\<rparr>"
    by (simp add: find_env_manager_def ENV_MANAGER_INFO_def EnvironmentManager_def
        script_world_def example_world_def fresh_def Installer_def expanduser_home_u activate_home_u
        setup_env_manager_def check_env_manager_version_def run_env_manager_cmd_def
        run_cmd_def version_rule_def version_reply_def io0_def sh v cmp Let_def)
  have 3: "find_env_manager script_world dry None io0
     = Return (dry\<lparr>env_manager := Some (ENV_MANAGER_INFO script_world ! 1)\<rparr>)
         \<lparr>events =
            [Cmd ''# . /home/u/miniforge3/bin/activate && mamba shell init --shell bash'',
             Cmd ''# . /home/u/miniforge3/bin/activate && conda --version''],
            consumed = 0\<rparr>"
    by (simp add: find_env_manager_def ENV_MANAGER_INFO_def EnvironmentManager_def
        script_world_def example_world_def dry_def Installer_def expanduser_home_u activate_home_u
        setup_env_manager_def check_env_manager_version_def run_env_manager_cmd_def
        run_cmd_def version_rule_def version_reply_def io0_def sh v cmp Let_def)
  have 4: "find_env_manager old_conda_world dry None io0
     = Raise (RAILInstallationError
                (ERROR_ENV_MANAGER_OUT_OF_DATE ''conda'' ''4.0.0'' ''23.5.0'') 1)
         \<lparr>events =
            [Cmd ''# . /home/u/miniconda3/bin/activate && conda tos accept --override-channels --channel https://repo.anaconda.com/pkgs/main'',
             Cmd ''# . /home/u/miniconda3/bin/activate && conda tos accept --override-channels --channel https://repo.anaconda.com/pkgs/r'',
             Cmd ''. /home/u/miniconda3/bin/activate && conda --version''],
            consumed = 0\<rparr>"
    by (simp add: find_env_manager_def ENV_MANAGER_INFO_def EnvironmentManager_def
        old_conda_world_def example_world_def dry_def Installer_def expanduser_home_u activate_home_u
        setup_env_manager_def check_env_manager_version_def run_env_manager_cmd_def
        run_cmd_def version_rule_def version_reply_def io0_def sh v cmp Let_def)
  from 1 2 3 4 show ?thesis by blast
qed

subsection \<open>The name of the environment\<close>

lemma bind_Return_iff:
  "bind x f = Return v s' \<longleftrightarrow> (\<exists>a t. x = Return a t \<and> f a t = Return v s')"
  by (cases x) auto

lemma run_cmd_Return:
  "run_cmd w cmd as_comment capture_output s = Return out s' \<Longrightarrow>
   s' = s\<lparr>events := events s @ [Cmd (if as_comment then ''# '' @ cmd else cmd)]\<rparr>"
  by (auto simp: run_cmd_def Let_def split: if_splits)

text \<open>What the listing of the existing names does to the machine: nothing without a
  preinitialised manager, and the two queries with one.\<close>

lemma existing_names_of_events:
  assumes "existing_names_of w self s = Return existing_names s1"
  shows "(\<not> env_manager_preinitialized self \<longrightarrow> s1 = s \<and> existing_names = [])
       \<and> (env_manager_preinitialized self \<longrightarrow>
            (\<exists>m. env_manager self = Some m
                 \<and> s1 = s\<lparr>events := events s @ [Cmd (executable m @ '' env list --json''),
                                                 Cmd (executable m @ '' info --base --json'')]\<rparr>))"
proof (cases "env_manager_preinitialized self")
  case False
  with assms show ?thesis by (simp add: existing_names_of_def)
next
  case True
  with assms obtain m where m: "env_manager self = Some m"
    by (cases "env_manager self") (auto simp: existing_names_of_def)
  from assms True m obtain o1 t1 where
    r1: "run_cmd w (executable m @ '' env list --json'') False True s = Return o1 t1"
    and rest1: "(case stdout o1 of
                    None \<Rightarrow> Raise TypeError t1
                  | Some out \<Rightarrow>
                      (case json_envs w out of
                         Inl e \<Rightarrow> Raise e t1
                       | Inr existing_prefixes \<Rightarrow>
                           bind (run_cmd w (executable m @ '' info --base --json'') False True t1)
                             (\<lambda>info_output s.
                                case stdout info_output of
                                  None \<Rightarrow> Raise TypeError s
                                | Some out \<Rightarrow>
                                    (case json_first_value w out of
                                       Inl e \<Rightarrow> Raise e s
                                     | Inr base_prefix \<Rightarrow>
                                         Return
                                           (map stem
                                              (filter (\<lambda>e. e \<noteq> base_prefix) existing_prefixes))
                                           s)))) = Return existing_names s1"
    by (auto simp: existing_names_of_def bind_Return_iff)
  from rest1 obtain out1 where out1: "stdout o1 = Some out1"
    by (cases "stdout o1") auto
  from rest1 out1 obtain prefixes where prefixes: "json_envs w out1 = Inr prefixes"
    by (cases "json_envs w out1") auto
  from rest1 out1 prefixes obtain o2 t2 where
    r2: "run_cmd w (executable m @ '' info --base --json'') False True t1 = Return o2 t2"
    and rest2: "(case stdout o2 of
                   None \<Rightarrow> Raise TypeError t2
                 | Some out \<Rightarrow>
                     (case json_first_value w out of
                        Inl e \<Rightarrow> Raise e t2
                      | Inr base_prefix \<Rightarrow>
                          Return (map stem (filter (\<lambda>e. e \<noteq> base_prefix) prefixes)) t2))
                = Return existing_names s1"
    by (auto simp: bind_Return_iff)
  from rest2 obtain out2 where out2: "stdout o2 = Some out2"
    by (cases "stdout o2") auto
  from rest2 out2 have t2: "t2 = s1"
    by (cases "json_first_value w out2") auto
  from run_cmd_Return[OF r1] run_cmd_Return[OF r2] t2
  have "s1 = s\<lparr>events := events s @ [Cmd (executable m @ '' env list --json''),
                                      Cmd (executable m @ '' info --base --json'')]\<rparr>"
    by simp
  with True m show ?thesis by simp
qed

text \<open>
  What the guard of \<open>choose_env_name\<close> does with the list \<open>existing_names\<close> that it
  has computed; it asks a preinitialised manager only, and has an empty list otherwise. A
  name given on the command line is taken exactly when it is not in the list, and is
  refused with the installation error when it is. A name that the prompt returns is not in
  the list and is not empty. At the prompt, a line that is in the list or is empty makes
  the loop ask again, and any other line is taken. Computing the list runs at most the two
  queries of the manager, and a run whose name from the command line is refused ends with
  that error in the state the check has left, without reaching \<open>create_env\<close>.
\<close>

lemma choose_env_name_guard:
  assumes "existing_names_of w self s = Return existing_names s1"
  shows "(\<forall>nm. choose_env_name w self (Some nm) s =
            (if nm \<in> set existing_names
             then Raise (RAILInstallationError
                           (''Supplied environment name '' @ nm @ '' already exists'') 1) s1
             else Return (self\<lparr>env_name := Some nm\<rparr>) s1))
       \<and> (\<forall>self' s2. choose_env_name w self None s = Return self' s2 \<longrightarrow>
            (\<exists>nm. self' = self\<lparr>env_name := Some nm\<rparr>
                  \<and> nm \<notin> set existing_names \<and> nm \<noteq> []))
       \<and> (\<forall>line. isatty w \<and> stdin w (consumed s1) = Some line \<longrightarrow>
            choose_env_name w self None s =
              (if line \<in> set existing_names \<or> line = []
               then bind (request_input w
                            (''Name of new virtual environment to install ''
                               @ RAIL_COLORIZED w @ '' in:'')
                            [] True (Some (\<lambda>nm. check_env_name nm existing_names))
                            (s1\<lparr>consumed := consumed s1 + 1\<rparr>))
                      (\<lambda>result s. Return (self\<lparr>env_name := Some result\<rparr>) s)
               else Return (self\<lparr>env_name := Some line\<rparr>)
                      (s1\<lparr>consumed := consumed s1 + 1\<rparr>)))
       \<and> (\<not> env_manager_preinitialized self \<longrightarrow> s1 = s \<and> existing_names = [])
       \<and> (env_manager_preinitialized self \<longrightarrow>
            (\<exists>m. env_manager self = Some m
                 \<and> s1 = s\<lparr>events := events s @ [Cmd (executable m @ '' env list --json''),
                                                 Cmd (executable m @ '' info --base --json'')]\<rparr>))
       \<and> (\<forall>self0 to_install nm rail_selection devtool_selection clean s0.
            find_env_manager w self0 to_install s0 = Return self s \<and> nm \<in> set existing_names
            \<longrightarrow> run w self0 to_install (Some nm) rail_selection devtool_selection clean s0 =
                  Raise (RAILInstallationError
                           (''Supplied environment name '' @ nm @ '' already exists'') 1) s1)"
proof -
  define prompt where
    "prompt = ''Name of new virtual environment to install '' @ RAIL_COLORIZED w @ '' in:''"
  let ?v = "Some (\<lambda>nm. check_env_name nm existing_names)"
  have cli: "\<forall>nm. choose_env_name w self (Some nm) s =
            (if nm \<in> set existing_names
             then Raise (RAILInstallationError
                           (''Supplied environment name '' @ nm @ '' already exists'') 1) s1
             else Return (self\<lparr>env_name := Some nm\<rparr>) s1)"
    using assms by (simp add: choose_env_name_def check_env_name_def)
  have asks: "choose_env_name w self None s =
                  bind (request_input w prompt [] True ?v s1)
                    (\<lambda>result s. Return (self\<lparr>env_name := Some result\<rparr>) s)"
    using assms by (simp add: choose_env_name_def prompt_def)
  have ret: "\<forall>self' s2. choose_env_name w self None s = Return self' s2 \<longrightarrow>
            (\<exists>nm. self' = self\<lparr>env_name := Some nm\<rparr>
                  \<and> nm \<notin> set existing_names \<and> nm \<noteq> [])"
  proof (intro allI impI)
    fix self' s2
    assume "choose_env_name w self None s = Return self' s2"
    with asks have "bind (request_input w prompt [] True ?v s1)
                      (\<lambda>result s. Return (self\<lparr>env_name := Some result\<rparr>) s)
                    = Return self' s2"
      by simp
    then obtain nm where
      r: "request_input w prompt [] True ?v s1 = Return nm s2"
      and s': "self' = self\<lparr>env_name := Some nm\<rparr>"
      unfolding bind_Return_iff by auto
    from r have "ask_loop w [] True ?v s1 = Some (Return nm s2)"
      by (auto simp: request_input_def split: if_splits option.splits)
    from ask_loop_accepts[OF this]
    have "nm \<notin> set existing_names" "nm \<noteq> []"
      by (auto simp: default_validation_def extra_validation_def check_env_name_def
               split: if_splits)
    with s' show "\<exists>nm. self' = self\<lparr>env_name := Some nm\<rparr>
                  \<and> nm \<notin> set existing_names \<and> nm \<noteq> []"
      by blast
  qed
  have step: "\<forall>line. isatty w \<and> stdin w (consumed s1) = Some line \<longrightarrow>
            choose_env_name w self None s =
              (if line \<in> set existing_names \<or> line = []
               then bind (request_input w prompt [] True ?v
                            (s1\<lparr>consumed := consumed s1 + 1\<rparr>))
                      (\<lambda>result s. Return (self\<lparr>env_name := Some result\<rparr>) s)
               else Return (self\<lparr>env_name := Some line\<rparr>)
                      (s1\<lparr>consumed := consumed s1 + 1\<rparr>))"
  proof (intro allI impI)
    fix line
    assume a: "isatty w \<and> stdin w (consumed s1) = Some line"
    have "ask_loop w [] True ?v s1 =
            (if line \<in> set existing_names \<or> line = []
             then ask_loop w [] True ?v (s1\<lparr>consumed := consumed s1 + 1\<rparr>)
             else Some (Return line (s1\<lparr>consumed := consumed s1 + 1\<rparr>)))"
      using a
      by (subst ask_loop.simps)
         (auto simp: default_validation_def extra_validation_def check_env_name_def)
    with a have "request_input w prompt [] True ?v s1 =
            (if line \<in> set existing_names \<or> line = []
             then request_input w prompt [] True ?v (s1\<lparr>consumed := consumed s1 + 1\<rparr>)
             else Return line (s1\<lparr>consumed := consumed s1 + 1\<rparr>))"
      by (simp add: request_input_def)
    with asks show "choose_env_name w self None s =
              (if line \<in> set existing_names \<or> line = []
               then bind (request_input w prompt [] True ?v
                            (s1\<lparr>consumed := consumed s1 + 1\<rparr>))
                      (\<lambda>result s. Return (self\<lparr>env_name := Some result\<rparr>) s)
               else Return (self\<lparr>env_name := Some line\<rparr>)
                      (s1\<lparr>consumed := consumed s1 + 1\<rparr>))"
      by simp
  qed
  have whole: "\<forall>self0 to_install nm rail_selection devtool_selection clean s0.
            find_env_manager w self0 to_install s0 = Return self s \<and> nm \<in> set existing_names
            \<longrightarrow> run w self0 to_install (Some nm) rail_selection devtool_selection clean s0 =
                  Raise (RAILInstallationError
                           (''Supplied environment name '' @ nm @ '' already exists'') 1) s1"
    using cli by (simp add: run_def)
  from cli ret step[unfolded prompt_def] existing_names_of_events[OF assms] whole
  show ?thesis
    by blast
qed
text \<open>
  C5. The claim holds of the list that the code computes, and that list is not the list of
  the environments: \<open>choose_env_name\<close> takes the stem of each prefix, which cuts a name
  at its last dot. Where the manager lists the environment \<open>py3.10\<close>, the name found is
  \<open>py3\<close>. So the name \<open>py3.10\<close> from the command line is taken although that
  environment exists, and \<open>create_env\<close> goes on to create it again; and the name
  \<open>py3\<close> is refused although no such environment exists.
\<close>

theorem dotted_env_name_collides:
  "path_name ''/home/u/miniconda3/envs/py3.10'' = ''py3.10''
   \<and> stem ''/home/u/miniconda3/envs/py3.10'' = ''py3''
   \<and> find_env_manager dotted_world fresh None io0 = Return dotted_found dotted_found_io
   \<and> existing_names_of dotted_world dotted_found dotted_found_io
       = Return [''py3''] dotted_listed_io
   \<and> choose_env_name dotted_world dotted_found (Some ''py3.10'') dotted_found_io
       = Return (dotted_found\<lparr>env_name := Some ''py3.10''\<rparr>) dotted_listed_io
   \<and> create_env dotted_world (dotted_found\<lparr>env_name := Some ''py3.10''\<rparr>) dotted_listed_io
       = Return ()
           (dotted_listed_io\<lparr>events := events dotted_listed_io
              @ [Cmd ''. /home/u/miniconda3/bin/activate && conda env create --name py3.10 --file https://raw.githubusercontent.com/LSSTDESC/rail/refs/heads/main/environment.yml --yes --quiet'']\<rparr>)
   \<and> choose_env_name dotted_world dotted_found (Some ''py3'') dotted_found_io
       = Raise (SystemExit ([NL] @ ''Supplied environment name py3 already exists'' @ [NL]) 1)
           dotted_listed_io"
proof -
  have n: "path_name ''/home/u/miniconda3/envs/py3.10'' = ''py3.10''"
    by (simp add: path_name_def path_parts_def split_str_def)
  have st: "stem ''/home/u/miniconda3/envs/py3.10'' = ''py3''"
    by (simp add: stem_def n Let_def)
  have v: "after_last_space (strip ''conda 24.1.0'') = Inr ''24.1.0''"
    by (simp add: after_last_space_def strip_def is_space_def)
  have cmp: "compare_versions exe ''24.1.0'' ''23.5.0'' s = Return () s" for exe s
    by (simp add: compare_versions_def version_string_to_tuple_def split_str_def py_int_def
        int_space_def is_digit_def digit_value_def)
  have f: "find_env_manager dotted_world fresh None io0 = Return dotted_found dotted_found_io"
    by (simp add: find_env_manager_def ENV_MANAGER_INFO_def EnvironmentManager_def
        dotted_world_def example_world_def fresh_def Installer_def expanduser_home_u
        activate_home_u setup_env_manager_def check_env_manager_version_def
        run_env_manager_cmd_def run_cmd_def version_rule_def version_reply_def io0_def v cmp
        Let_def dotted_found_def dotted_found_io_def)
  have l: "existing_names_of dotted_world dotted_found dotted_found_io
             = Return [''py3''] dotted_listed_io"
    by (simp add: existing_names_of_def dotted_found_def dotted_found_io_def
        dotted_listed_io_def fresh_def Installer_def ENV_MANAGER_INFO_def
        EnvironmentManager_def dotted_world_def example_world_def run_cmd_def
        version_reply_def st)
  have c1: "choose_env_name dotted_world dotted_found (Some ''py3.10'') dotted_found_io
       = Return (dotted_found\<lparr>env_name := Some ''py3.10''\<rparr>) dotted_listed_io"
    by (simp add: choose_env_name_def l check_env_name_def)
  have c2: "choose_env_name dotted_world dotted_found (Some ''py3'') dotted_found_io
       = Raise (SystemExit ([NL] @ ''Supplied environment name py3 already exists'' @ [NL]) 1)
           dotted_listed_io"
    by (simp add: choose_env_name_def l check_env_name_def RAILInstallationError_def
        endswith_def)
  have cr: "create_env dotted_world (dotted_found\<lparr>env_name := Some ''py3.10''\<rparr>)
              dotted_listed_io
       = Return ()
           (dotted_listed_io\<lparr>events := events dotted_listed_io
              @ [Cmd ''. /home/u/miniconda3/bin/activate && conda env create --name py3.10 --file https://raw.githubusercontent.com/LSSTDESC/rail/refs/heads/main/environment.yml --yes --quiet'']\<rparr>)"
    by (simp add: create_env_def create_env_cmd_def uname_convert_def dotted_found_def
        dotted_listed_io_def dotted_found_io_def fresh_def Installer_def ENV_MANAGER_INFO_def
        EnvironmentManager_def dotted_world_def example_world_def run_env_manager_cmd_def
        run_cmd_def version_reply_def expanduser_home_u activate_home_u Let_def)
  from n st f l c1 cr c2 show ?thesis by blast
qed

end
